theory Spec2Isabelle
  imports Complex_Main "HOL-Library.Multiset"
begin

section \<open>Shared vocabulary: strings, errors, notifications\<close>

text \<open>
  The repository is a set of React views (TypeScript).  Each view keeps its
  data in component state, calls a remote data client, and reports outcomes
  through a toast sink.  The embedding makes these effects explicit: component
  state is a record, the toast sink is the list of toasts raised so far (oldest
  first), and the remote calls a handler issues are logged.  For the order list
  and the report the answer of the remote side is an input of the handler; for
  the product card the remote collections are part of the state, and whether a
  call fails is an input.
\<close>

subsection \<open>String helpers of the language\<close>

text \<open>
  A string is the list of its characters.  \<open>String.prototype.toLowerCase\<close> is
  the language's own, defined by the Unicode case mappings; the functions that
  call it take it as the parameter \<open>toLowerCase\<close>, so what is proved of them
  holds for the built-in, whatever it does to a character.
\<close>

text \<open>\<open>s.startsWith(t)\<close> and \<open>s.includes(t)\<close>: \<open>t\<close> occurs in \<open>s\<close> at the
  front, respectively at some position.\<close>

fun startsWith :: "string \<Rightarrow> string \<Rightarrow> bool" where
  "startsWith s [] = True"
| "startsWith [] (c # t) = False"
| "startsWith (d # s) (c # t) = (d = c \<and> startsWith s t)"

fun includes_str :: "string \<Rightarrow> string \<Rightarrow> bool" where
  "includes_str [] t = (t = [])"
| "includes_str (d # s) t = (startsWith (d # s) t \<or> includes_str s t)"

text \<open>\<open>Array.prototype.join\<close> on an array of strings.\<close>

fun join :: "string \<Rightarrow> string list \<Rightarrow> string" where
  "join sep [] = []"
| "join sep [x] = x"
| "join sep (x # y # ys) = x @ sep @ join sep (y # ys)"

text \<open>
  \<open>Array.prototype.slice(start, end)\<close>: a negative index counts from the end,
  both indices are clamped into \<open>0..length\<close>, and an empty range gives the empty
  array.
\<close>

definition slice :: "'a list \<Rightarrow> int \<Rightarrow> int \<Rightarrow> 'a list" where
  "slice xs start stop =
     (let n = int (length xs);
          k = (if start < 0 then max (n + start) 0 else min start n);
          final = (if stop < 0 then max (n + stop) 0 else min stop n)
      in take (nat (final - k)) (drop (nat k) xs))"

subsection \<open>Errors and toasts\<close>

text \<open>An error object as the handlers see it: only \<open>message\<close> is read, and it
  may be missing.\<close>

record js_error =
  message :: "string option"

text \<open>\<open>err.message || fallback\<close>: a missing or empty message is falsy.\<close>

definition messageOr :: "js_error \<Rightarrow> string \<Rightarrow> string" where
  "messageOr err fallback =
     (case message err of
        None \<Rightarrow> fallback
      | Some m \<Rightarrow> if m = [] then fallback else m)"

datatype variant = Default | Destructive | Success

text \<open>A call \<open>toast({title, description, variant})\<close>; \<open>variant\<close> is \<open>None\<close>
  when the call leaves it out (the sink then shows the default style).\<close>

record toast =
  title :: string
  description :: string
  variant :: "variant option"

text \<open>The effects every view shares: the toasts raised and the errors written
  to the console, oldest first.  Each view's state record extends this one.\<close>

record ui =
  toasts :: "toast list"
  console :: "js_error list"

definition toast_call :: "toast \<Rightarrow> 'a ui_scheme \<Rightarrow> 'a ui_scheme" where
  "toast_call t s = s\<lparr>toasts := toasts s @ [t]\<rparr>"

definition console_error :: "js_error \<Rightarrow> 'a ui_scheme \<Rightarrow> 'a ui_scheme" where
  "console_error e s = s\<lparr>console := console s @ [e]\<rparr>"

text \<open>What \<open>const { data, error } = await ...\<close> destructures.\<close>

record 'a response =
  data :: "'a option"
  error :: "js_error option"

section \<open>Order list view\<close>

datatype OrderStatus = Pending | Processing | Shipped | Completed | Cancelled

fun statusName :: "OrderStatus \<Rightarrow> string" where
  "statusName Pending = ''pending''"
| "statusName Processing = ''processing''"
| "statusName Shipped = ''shipped''"
| "statusName Completed = ''completed''"
| "statusName Cancelled = ''cancelled''"

text \<open>The state variable \<open>statusFilter\<close> has type \<open>OrderStatus | 'all'\<close>.\<close>

datatype StatusFilter = All | Only OrderStatus

text \<open>Amounts and prices are JavaScript numbers that the views only display;
  their type is the parameter \<open>'n\<close>.\<close>

record 'n OrderItem =
  item_id :: int
  item_name :: string
  price :: 'n
  quantity :: int

record ShippingAddress =
  line1 :: string
  line2 :: "string option"
  city :: string
  state :: string
  postal_code :: string

record 'n Order =
  order_id :: string
  customer_name :: string
  customer_email :: string
  order_date :: string
  status :: OrderStatus
  total_amount :: 'n
  items :: "'n OrderItem list"
  shipping_address :: ShippingAddress

subsection \<open>Filtering\<close>

definition matchesSearch :: "(string \<Rightarrow> string) \<Rightarrow> string \<Rightarrow> 'n Order \<Rightarrow> bool" where
  "matchesSearch toLowerCase searchTerm order =
     (includes_str (toLowerCase (order_id order)) (toLowerCase searchTerm) \<or>
      includes_str (toLowerCase (customer_name order)) (toLowerCase searchTerm) \<or>
      includes_str (toLowerCase (customer_email order)) (toLowerCase searchTerm))"

definition matchesStatus :: "StatusFilter \<Rightarrow> 'n Order \<Rightarrow> bool" where
  "matchesStatus statusFilter order =
     (statusFilter = All \<or> Only (status order) = statusFilter)"

definition filteredOrders ::
    "(string \<Rightarrow> string) \<Rightarrow> 'n Order list \<Rightarrow> string \<Rightarrow> StatusFilter \<Rightarrow> 'n Order list" where
  "filteredOrders toLowerCase orders searchTerm statusFilter =
     filter (\<lambda>order. matchesSearch toLowerCase searchTerm order
                      \<and> matchesStatus statusFilter order) orders"

subsection \<open>Pagination\<close>

definition ordersPerPage :: int where
  "ordersPerPage = 10"

definition indexOfLastOrder :: "int \<Rightarrow> int" where
  "indexOfLastOrder page = page * ordersPerPage"

definition indexOfFirstOrder :: "int \<Rightarrow> int" where
  "indexOfFirstOrder page = indexOfLastOrder page - ordersPerPage"

definition currentOrders :: "'a list \<Rightarrow> int \<Rightarrow> 'a list" where
  "currentOrders filtered page =
     slice filtered (indexOfFirstOrder page) (indexOfLastOrder page)"

text \<open>\<open>Math.ceil(filteredOrders.length / ordersPerPage)\<close>; the quotient of two
  integers of this size is exact enough in a double for the ceiling to be that
  of the real quotient.\<close>

definition pageCount :: "'a list \<Rightarrow> int" where
  "pageCount filtered = \<lceil>real (length filtered) / real_of_int ordersPerPage\<rceil>"

definition pageNumber :: "int \<Rightarrow> int \<Rightarrow> nat \<Rightarrow> int" where
  "pageNumber page pages i = max 1 (min (page - 2 + int i) pages)"

text \<open>The callback of \<open>Array.from({ length: Math.min(5, pageCount) }, ...)\<close>:
  \<open>None\<close> is the \<open>null\<close> it returns when the number exceeds the page count,
  otherwise the number on the link.\<close>

definition pageLinkItem :: "int \<Rightarrow> int \<Rightarrow> nat \<Rightarrow> int option" where
  "pageLinkItem page pages i =
     (let n = pageNumber page pages i in if n > pages then None else Some n)"

definition pageLinkItems :: "int \<Rightarrow> int \<Rightarrow> int option list" where
  "pageLinkItems page pages = map (pageLinkItem page pages) [0..<nat (min 5 pages)]"

text \<open>The numbers on the links the view shows, left to right: the pagination
  block is rendered only for a non-empty filtered list, and a \<open>null\<close> item
  renders nothing.\<close>

definition pageLinks :: "'a list \<Rightarrow> int \<Rightarrow> int list" where
  "pageLinks filtered page =
     (if length filtered > 0
      then concat (map (\<lambda>item. case item of None \<Rightarrow> [] | Some n \<Rightarrow> [n])
                       (pageLinkItems page (pageCount filtered)))
      else [])"

subsection \<open>The view's state and the status update\<close>

datatype orders_request = SelectOrders | UpdateStatus string OrderStatus

record 'n OrdersPage = ui +
  orders :: "'n Order list"
  isLoading :: bool
  errorText :: "string option"
  searchTerm :: string
  statusFilter :: StatusFilter
  currentPage :: int
  selectedOrder :: "'n Order option"
  isViewModalOpen :: bool
  requests :: "orders_request list"

text \<open>
  \<open>updateOrderStatus(orderId, newStatus)\<close> is an async function of the render
  that created it: inside it, \<open>orders\<close> is the array that render saw, not the
  state at the time the awaited call answers.  So the handler runs in two
  steps.  The call records the request and keeps the closure; the state may
  change while the answer is awaited (another update may complete).
\<close>

record 'n update_closure =
  closure_orders :: "'n Order list"
  closure_orderId :: string
  closure_newStatus :: OrderStatus

definition updateOrderStatus_call ::
    "string \<Rightarrow> OrderStatus \<Rightarrow> 'n OrdersPage \<Rightarrow> 'n update_closure \<times> 'n OrdersPage" where
  "updateOrderStatus_call orderId newStatus page =
     (\<lparr>closure_orders = orders page, closure_orderId = orderId,
       closure_newStatus = newStatus\<rparr>,
      page\<lparr>requests := requests page @ [UpdateStatus orderId newStatus]\<rparr>)"

text \<open>
  The rest of the handler, run on the answer \<open>resp\<close> in the state \<open>page\<close> of
  that moment.  A non-null \<open>error\<close> is thrown and caught by the handler's own
  \<open>catch\<close>.  On success \<open>setOrders(updatedOrders)\<close> replaces the list of
  orders by the one computed from the closure's array.
\<close>

definition updateOrderStatus_resume ::
    "'n update_closure \<Rightarrow> 'n Order list response \<Rightarrow> 'n OrdersPage \<Rightarrow> 'n OrdersPage" where
  "updateOrderStatus_resume closure resp page =
     (case error resp of
        Some err \<Rightarrow>
          toast_call \<lparr>title = ''Error updating status'',
                      description = messageOr err ''An unexpected error occurred.'',
                      variant = Some Destructive\<rparr> page
      | None \<Rightarrow>
          (case data resp of
             Some (updatedOrder # rest) \<Rightarrow>
               toast_call \<lparr>title = ''Order status updated'',
                           description = ''Order '' @ closure_orderId closure
                                         @ '' status changed to ''
                                         @ statusName (closure_newStatus closure),
                           variant = None\<rparr>
                 (page\<lparr>orders :=
                    map (\<lambda>order. if order_id order = closure_orderId closure
                                  then order\<lparr>status := status updatedOrder\<rparr>
                                  else order)
                        (closure_orders closure)\<rparr>)
           | _ \<Rightarrow>
               toast_call \<lparr>title = ''Failed to update status'',
                           description = ''Order not found or no changes made.'',
                           variant = Some Destructive\<rparr> page))"

text \<open>One update from call to answer with nothing happening in between.\<close>

definition updateOrderStatus ::
    "string \<Rightarrow> OrderStatus \<Rightarrow> 'n Order list response \<Rightarrow> 'n OrdersPage \<Rightarrow> 'n OrdersPage" where
  "updateOrderStatus orderId newStatus resp page =
     (case updateOrderStatus_call orderId newStatus page of
        (closure, sent) \<Rightarrow> updateOrderStatus_resume closure resp sent)"

section \<open>Product card\<close>

record 'n ProductCardProps =
  prod_id :: int
  prod_name :: string
  prod_price :: 'n
  discount :: 'n
  prod_image :: string
  prod_category :: string
  inStock :: bool
  rating :: "'n option"
  salesCount :: "int option"

text \<open>The signed-in user of the authentication context; the handlers read
  only \<open>user.id\<close>.\<close>

record User =
  user_id :: string

record ProductCard = ui +
  isWishlisted :: bool
  isLoadingWishlist :: bool
  isAddingToCart :: bool

subsection \<open>The remote collections\<close>

text \<open>
  Modelled from the spec: the remote data client is an external collaborator;
  the handlers use its operations \<open>addWishlistEntry\<close>, \<open>removeWishlistEntry\<close>,
  \<open>checkCartMembership\<close> and \<open>addCartItem\<close>.  A collection is the list of its
  rows; \<open>mutations\<close> logs every insert and delete the client issues.  Each call
  takes the failure \<open>fault\<close> the network or the service answers with, if any:
  a failed call leaves the rows as they are.
\<close>

record wishlist_row =
  w_user_id :: string
  w_product_id :: int

record cart_row =
  c_user_id :: string
  c_product_id :: int
  c_quantity :: int

datatype mutation =
    WishlistInsert string int
  | WishlistDelete string int
  | CartInsert string int int

record backend =
  wishlist :: "wishlist_row list"
  cart_items :: "cart_row list"
  mutations :: "mutation list"

definition wishlist_match :: "string \<Rightarrow> int \<Rightarrow> wishlist_row \<Rightarrow> bool" where
  "wishlist_match uid pid r = (w_user_id r = uid \<and> w_product_id r = pid)"

definition cart_match :: "string \<Rightarrow> int \<Rightarrow> cart_row \<Rightarrow> bool" where
  "cart_match uid pid r = (c_user_id r = uid \<and> c_product_id r = pid)"

text \<open>Modelled from the spec: \<open>from('wishlist').delete().match({user_id, product_id})\<close>
  removes every matching row.\<close>

definition wishlist_delete ::
    "js_error option \<Rightarrow> string \<Rightarrow> int \<Rightarrow> backend \<Rightarrow> unit response \<times> backend" where
  "wishlist_delete fault uid pid db =
     (let issued = db\<lparr>mutations := mutations db @ [WishlistDelete uid pid]\<rparr>
      in case fault of
           Some err \<Rightarrow> (\<lparr>data = None, error = Some err\<rparr>, issued)
         | None \<Rightarrow>
             (\<lparr>data = None, error = None\<rparr>,
              issued\<lparr>wishlist := filter (\<lambda>r. \<not> wishlist_match uid pid r) (wishlist issued)\<rparr>))"

text \<open>Modelled from the spec: \<open>from('wishlist').insert([{user_id, product_id}])\<close>
  adds one row.\<close>

definition wishlist_insert ::
    "js_error option \<Rightarrow> string \<Rightarrow> int \<Rightarrow> backend \<Rightarrow> unit response \<times> backend" where
  "wishlist_insert fault uid pid db =
     (let issued = db\<lparr>mutations := mutations db @ [WishlistInsert uid pid]\<rparr>
      in case fault of
           Some err \<Rightarrow> (\<lparr>data = None, error = Some err\<rparr>, issued)
         | None \<Rightarrow>
             (\<lparr>data = None, error = None\<rparr>,
              issued\<lparr>wishlist := wishlist issued @ [\<lparr>w_user_id = uid, w_product_id = pid\<rparr>]\<rparr>))"

text \<open>Modelled from the spec: the existence check
  \<open>from('cart_items').select('product_id').eq(...).eq(...).maybeSingle()\<close> answers
  \<open>null\<close> data for no matching row, the row for exactly one, and an error for
  more than one.  A query changes nothing.\<close>

definition cart_select_maybeSingle ::
    "js_error option \<Rightarrow> string \<Rightarrow> int \<Rightarrow> backend \<Rightarrow> cart_row response" where
  "cart_select_maybeSingle fault uid pid db =
     (case fault of
        Some err \<Rightarrow> \<lparr>data = None, error = Some err\<rparr>
      | None \<Rightarrow>
          (case filter (cart_match uid pid) (cart_items db) of
             [] \<Rightarrow> \<lparr>data = None, error = None\<rparr>
           | [r] \<Rightarrow> \<lparr>data = Some r, error = None\<rparr>
           | _ \<Rightarrow> \<lparr>data = None,
                    error = Some \<lparr>message = Some ''JSON object requested, multiple (or no) rows returned''\<rparr>\<rparr>))"

text \<open>Modelled from the spec: \<open>from('cart_items').insert([{user_id, product_id, quantity}])\<close>
  adds one row.\<close>

definition cart_insert ::
    "js_error option \<Rightarrow> string \<Rightarrow> int \<Rightarrow> int \<Rightarrow> backend \<Rightarrow> unit response \<times> backend" where
  "cart_insert fault uid pid qty db =
     (let issued = db\<lparr>mutations := mutations db @ [CartInsert uid pid qty]\<rparr>
      in case fault of
           Some err \<Rightarrow> (\<lparr>data = None, error = Some err\<rparr>, issued)
         | None \<Rightarrow>
             (\<lparr>data = None, error = None\<rparr>,
              issued\<lparr>cart_items := cart_items issued
                         @ [\<lparr>c_user_id = uid, c_product_id = pid, c_quantity = qty\<rparr>]\<rparr>))"

subsection \<open>The handlers\<close>

text \<open>
  \<open>handleToggleWishlist\<close>: one remote call, whose failure (if any) is \<open>fault\<close>.
  The \<open>finally\<close> block clears \<open>isLoadingWishlist\<close> on every path that entered
  the \<open>try\<close>.
\<close>

definition handleToggleWishlist ::
    "'n ProductCardProps \<Rightarrow> User option \<Rightarrow> js_error option
       \<Rightarrow> ProductCard \<times> backend \<Rightarrow> ProductCard \<times> backend" where
  "handleToggleWishlist props user fault world =
     (case world of (st, db) \<Rightarrow>
     (case user of
        None \<Rightarrow>
          (toast_call \<lparr>title = ''Login Required'',
                       description = ''Please log in to add items to your wishlist.'',
                       variant = Some Destructive\<rparr> st, db)
      | Some u \<Rightarrow>
          (let loading = st\<lparr>isLoadingWishlist := True\<rparr>;
               caught = (\<lambda>err. toast_call
                           \<lparr>title = ''Error Updating Wishlist'',
                            description = messageOr err ''An unexpected error occurred.'',
                            variant = Some Destructive\<rparr> loading);
               finally = (\<lambda>c. c\<lparr>isLoadingWishlist := False\<rparr>)
           in if isWishlisted loading
              then (case wishlist_delete fault (user_id u) (prod_id props) db of
                      (resp, db') \<Rightarrow>
                        (finally
                           (case error resp of
                              Some err \<Rightarrow> caught err
                            | None \<Rightarrow>
                                toast_call
                                  \<lparr>title = ''Removed from Wishlist'',
                                   description = prod_name props
                                                 @ '' has been removed from your wishlist.'',
                                   variant = None\<rparr>
                                  (loading\<lparr>isWishlisted := False\<rparr>)), db'))
              else (case wishlist_insert fault (user_id u) (prod_id props) db of
                      (resp, db') \<Rightarrow>
                        (finally
                           (case error resp of
                              Some err \<Rightarrow> caught err
                            | None \<Rightarrow>
                                toast_call
                                  \<lparr>title = ''Added to Wishlist'',
                                   description = prod_name props
                                                 @ '' has been added to your wishlist.'',
                                   variant = Some Success\<rparr>
                                  (loading\<lparr>isWishlisted := True\<rparr>)), db')))))"

text \<open>
  \<open>handleAddToCart\<close>: the existence check and, when it finds nothing, the
  insert; \<open>fetchFault\<close> and \<open>insertFault\<close> are the failures of the two calls.
\<close>

definition handleAddToCart ::
    "'n ProductCardProps \<Rightarrow> User option \<Rightarrow> js_error option \<Rightarrow> js_error option
       \<Rightarrow> ProductCard \<times> backend \<Rightarrow> ProductCard \<times> backend" where
  "handleAddToCart props user fetchFault insertFault world =
     (case world of (st, db) \<Rightarrow>
     (case user of
        None \<Rightarrow>
          (toast_call \<lparr>title = ''Login Required'',
                       description = ''Please log in to add items to your cart.'',
                       variant = Some Destructive\<rparr> st, db)
      | Some u \<Rightarrow>
          if \<not> inStock props
          then (toast_call \<lparr>title = ''Out of Stock'',
                            description = ''This product is currently out of stock.'',
                            variant = Some Destructive\<rparr> st, db)
          else
            (let adding = st\<lparr>isAddingToCart := True\<rparr>;
                 caught = (\<lambda>err. toast_call
                             \<lparr>title = ''Error Adding to Cart'',
                              description = messageOr err ''An unexpected error occurred.'',
                              variant = Some Destructive\<rparr> adding);
                 finally = (\<lambda>c. c\<lparr>isAddingToCart := False\<rparr>);
                 existing = cart_select_maybeSingle fetchFault (user_id u) (prod_id props) db
             in case error existing of
                  Some fetchError \<Rightarrow> (finally (caught fetchError), db)
                | None \<Rightarrow>
                    (case data existing of
                       Some existingCartItem \<Rightarrow>
                         (finally
                            (toast_call
                               \<lparr>title = ''Already in Cart'',
                                description = prod_name props @ '' is already in your cart.'',
                                variant = None\<rparr> adding), db)
                     | None \<Rightarrow>
                         (case cart_insert insertFault (user_id u) (prod_id props) 1 db of
                            (resp, db') \<Rightarrow>
                              (finally
                                 (case error resp of
                                    Some insertError \<Rightarrow> caught insertError
                                  | None \<Rightarrow>
                                      toast_call
                                        \<lparr>title = ''Added to Cart'',
                                         description = prod_name props
                                                       @ '' has been added to your cart.'',
                                         variant = Some Success\<rparr> adding), db'))))))"

section \<open>Quick actions: the CSV report\<close>

record 'n OrderReportData =
  report_id :: string
  report_customer_name :: string
  report_customer_email :: string
  report_order_date :: string
  report_status :: string
  report_total_amount :: 'n

text \<open>A file handed to the browser by clicking the temporary anchor: the
  \<open>download\<close> attribute, the text of the blob and the blob's type.  The anchor
  and the object URL are created and released inside the same branch.\<close>

record download =
  filename :: string
  content :: string
  blob_type :: string

record QuickActions = ui +
  isGeneratingReport :: bool
  downloads :: "download list"

definition headers :: "string list" where
  "headers = [''Order ID'', ''Customer Name'', ''Customer Email'', ''Order Date'',
              ''Status'', ''Total Amount'']"

definition newline :: string where
  "newline = [CHR 0x0A]"

text \<open>
  One element of \<open>csvRows\<close>.  The two library calls are parameters:
  \<open>formatDate s\<close> stands for \<open>format(new Date(s), 'yyyy-MM-dd HH:mm:ss')\<close>, which
  raises on an invalid date (\<open>Inl\<close>), and \<open>numberToString\<close> for
  \<open>Number.prototype.toString\<close>.
\<close>

definition csvRow ::
    "(string \<Rightarrow> js_error + string) \<Rightarrow> ('n \<Rightarrow> string) \<Rightarrow> 'n OrderReportData
       \<Rightarrow> js_error + string" where
  "csvRow formatDate numberToString order =
     (case formatDate (report_order_date order) of
        Inl err \<Rightarrow> Inl err
      | Inr date \<Rightarrow>
          Inr (join '','' [report_id order, report_customer_name order,
                          report_customer_email order, date, report_status order,
                          numberToString (report_total_amount order)]))"

text \<open>\<open>orders.map(...)\<close>: the first order whose callback raises ends the map.\<close>

fun csvRows ::
    "(string \<Rightarrow> js_error + string) \<Rightarrow> ('n \<Rightarrow> string) \<Rightarrow> 'n OrderReportData list
       \<Rightarrow> js_error + string list" where
  "csvRows formatDate numberToString [] = Inr []"
| "csvRows formatDate numberToString (order # rest) =
     (case csvRow formatDate numberToString order of
        Inl err \<Rightarrow> Inl err
      | Inr row \<Rightarrow>
          (case csvRows formatDate numberToString rest of
             Inl err \<Rightarrow> Inl err
           | Inr rows \<Rightarrow> Inr (row # rows)))"

definition csvString :: "string list \<Rightarrow> string" where
  "csvString rows = join newline (join '','' headers # rows)"

definition handleGenerateReport ::
    "(string \<Rightarrow> js_error + string) \<Rightarrow> ('n \<Rightarrow> string) \<Rightarrow> 'n OrderReportData list response
       \<Rightarrow> QuickActions \<Rightarrow> QuickActions" where
  "handleGenerateReport formatDate numberToString resp panel =
     (let started =
            toast_call
              \<lparr>title = ''Generating Report...'',
               description = ''Please wait while we fetch and process the order data.'',
               variant = None\<rparr>
              (panel\<lparr>isGeneratingReport := True\<rparr>);
          caught = (\<lambda>err. toast_call
                      \<lparr>title = ''Error Generating Report'',
                       description = messageOr err ''An unexpected error occurred.'',
                       variant = Some Destructive\<rparr>
                      (console_error err started));
          finally = (\<lambda>s. s\<lparr>isGeneratingReport := False\<rparr>);
          noData = finally
                     (finally
                        (toast_call
                           \<lparr>title = ''No Data'',
                            description = ''No orders found to generate a report.'',
                            variant = Some Default\<rparr> started))
      in case error resp of
           Some err \<Rightarrow> finally (caught err)
         | None \<Rightarrow>
             (case data resp of
                None \<Rightarrow> noData
              | Some [] \<Rightarrow> noData
              | Some (first # rest) \<Rightarrow>
                  (case csvRows formatDate numberToString (first # rest) of
                     Inl err \<Rightarrow> finally (caught err)
                   | Inr rows \<Rightarrow>
                       finally
                         (toast_call
                            \<lparr>title = ''Report Generated Successfully'',
                             description = ''The orders report has been downloaded.'',
                             variant = Some Success\<rparr>
                            (started\<lparr>downloads := downloads started
                               @ [\<lparr>filename = ''orders_report.csv'',
                                    content = csvString rows,
                                    blob_type = ''text/csv;charset=utf-8;''\<rparr>]\<rparr>)))))"

subsection \<open>Sample library functions for concrete runs\<close>

text \<open>
  A date formatter on timestamps written \<open>YYYY-MM-DDTHH:MM:SS\<close>: it prints the
  date, a space and the time; any other string is an invalid date, for which
  \<open>format\<close> raises \<open>RangeError: Invalid time value\<close>.
\<close>

definition isoFormat :: "string \<Rightarrow> js_error + string" where
  "isoFormat s =
     (if length s = 19 \<and> s ! 4 = CHR ''-'' \<and> s ! 7 = CHR ''-'' \<and> s ! 10 = CHR ''T''
         \<and> s ! 13 = CHR '':'' \<and> s ! 16 = CHR '':''
      then Inr (take 10 s @ '' '' @ drop 11 s)
      else Inl \<lparr>message = Some ''Invalid time value''\<rparr>)"

text \<open>Decimal digits of a natural number, as \<open>toString\<close> prints an integer
  amount.\<close>

fun showNat :: "nat \<Rightarrow> string" where
  "showNat n =
     (if n < 10 then [char_of (48 + n)]
      else showNat (n div 10) @ [char_of (48 + n mod 10)])"

declare showNat.simps [simp del]

text \<open>
  A lower-casing of strings whose characters are code units below 256 (ASCII
  and Latin-1), where it is what the built-in does: \<open>A\<close>..\<open>Z\<close> and the
  capitals \<open>0xC0\<close>..\<open>0xDE\<close> except the multiplication sign \<open>0xD7\<close> move up
  by 32, every other character stays.
\<close>

definition latin1ToLowerChar :: "char \<Rightarrow> char" where
  "latin1ToLowerChar c =
     (let n = (of_char c :: nat)
      in if (65 \<le> n \<and> n \<le> 90) \<or> (192 \<le> n \<and> n \<le> 222 \<and> n \<noteq> 215)
         then char_of (n + 32) else c)"

definition latin1ToLowerCase :: "string \<Rightarrow> string" where
  "latin1ToLowerCase s = map latin1ToLowerChar s"

subsection \<open>Sample data for concrete runs\<close>

definition sampleOrder :: "nat Order" where
  "sampleOrder =
     \<lparr>order_id = ''ORD-1'', customer_name = ''Alice Rao'',
      customer_email = ''alice@example.com'', order_date = ''2024-01-05T10:20:30'',
      status = Pending, total_amount = 1200,
      items = [\<lparr>item_id = 7, item_name = ''Lamp'', price = 600, quantity = 2\<rparr>],
      shipping_address = \<lparr>line1 = ''1 Main St'', line2 = None, city = ''Pune'',
                           state = ''MH'', postal_code = ''411001''\<rparr>\<rparr>"

definition sampleOrders :: "nat Order list" where
  "sampleOrders =
     [sampleOrder,
      sampleOrder\<lparr>order_id := ''ORD-2'', status := Shipped\<rparr>,
      sampleOrder\<lparr>order_id := ''ORD-3'', customer_name := ''Bob Iyer'',
                   customer_email := ''bob@example.com''\<rparr>]"

text \<open>An order whose customer name starts with a Latin-1 capital
  (\<open>E\<close> with acute accent, code \<open>0xC9\<close>).\<close>

definition sampleOrderZola :: "nat Order" where
  "sampleOrderZola =
     sampleOrder\<lparr>order_id := ''ORD-4'', customer_name := CHR 0xC9 # ''MILE ZOLA'',
                  customer_email := ''zola@example.com''\<rparr>"

definition samplePage :: "nat OrdersPage" where
  "samplePage =
     \<lparr>toasts = [], console = [], orders = sampleOrders, isLoading = False,
      errorText = None, searchTerm = [], statusFilter = All, currentPage = 1,
      selectedOrder = None, isViewModalOpen = False, requests = [SelectOrders]\<rparr>"

text \<open>Answers to a status update: one returned row for order \<open>ORD-1\<close> (whose
  status the service reports as \<open>completed\<close>), one returned row for order
  \<open>ORD-2\<close>, no row, and a failure.\<close>

definition rowResponse :: "nat Order list response" where
  "rowResponse = \<lparr>data = Some [sampleOrder\<lparr>status := Completed\<rparr>], error = None\<rparr>"

definition secondRowResponse :: "nat Order list response" where
  "secondRowResponse =
     \<lparr>data = Some [sampleOrder\<lparr>order_id := ''ORD-2'', status := Completed\<rparr>],
      error = None\<rparr>"

definition emptyResponse :: "nat Order list response" where
  "emptyResponse = \<lparr>data = Some [], error = None\<rparr>"

definition failedResponse :: "nat Order list response" where
  "failedResponse = \<lparr>data = None, error = Some \<lparr>message = Some ''Failed to fetch''\<rparr>\<rparr>"

text \<open>A product card for product 42 seen by user \<open>u1\<close>, and remote collections
  in which \<open>u1\<close> has the product in the cart but not on the wishlist.\<close>

definition sampleProps :: "nat ProductCardProps" where
  "sampleProps =
     \<lparr>prod_id = 42, prod_name = ''Desk Lamp'', prod_price = 600, discount = 0,
      prod_image = ''lamp.png'', prod_category = ''Lighting'', inStock = True,
      rating = None, salesCount = None\<rparr>"

definition sampleUser :: User where
  "sampleUser = \<lparr>user_id = ''u1''\<rparr>"

definition sampleCard :: ProductCard where
  "sampleCard =
     \<lparr>toasts = [], console = [], isWishlisted = False, isLoadingWishlist = False,
      isAddingToCart = False\<rparr>"

definition sampleBackend :: backend where
  "sampleBackend =
     \<lparr>wishlist = [\<lparr>w_user_id = ''u2'', w_product_id = 42\<rparr>],
      cart_items = [\<lparr>c_user_id = ''u1'', c_product_id = 42, c_quantity = 3\<rparr>,
                    \<lparr>c_user_id = ''u2'', c_product_id = 42, c_quantity = 1\<rparr>],
      mutations = []\<rparr>"

text \<open>The quick-actions panel before a report, and two fetched orders; the
  second customer name contains a comma.\<close>

definition samplePanel :: QuickActions where
  "samplePanel = \<lparr>toasts = [], console = [], isGeneratingReport = False, downloads = []\<rparr>"

definition sampleReportRows :: "nat OrderReportData list" where
  "sampleReportRows =
     [\<lparr>report_id = ''ORD-1'', report_customer_name = ''Alice Rao'',
       report_customer_email = ''alice@example.com'',
       report_order_date = ''2024-01-05T10:20:30'', report_status = ''pending'',
       report_total_amount = 1200\<rparr>,
      \<lparr>report_id = ''ORD-2'', report_customer_name = ''Iyer, Bob'',
       report_customer_email = ''bob@example.com'',
       report_order_date = ''2024-02-11T08:00:00'', report_status = ''shipped'',
       report_total_amount = 85\<rparr>]"

section \<open>Properties of the order list view\<close>

subsection \<open>Substring search\<close>

lemma startsWith_iff: "startsWith s t \<longleftrightarrow> (\<exists>suf. s = t @ suf)"
  by (induction s t rule: startsWith.induct) auto

lemma includes_str_iff: "includes_str s t \<longleftrightarrow> (\<exists>pre suf. s = pre @ t @ suf)"
proof (induction s)
  case Nil
  then show ?case by auto
next
  case (Cons d s)
  show ?case
  proof
    assume "includes_str (d # s) t"
    then consider "startsWith (d # s) t" | "includes_str s t" by auto
    then show "\<exists>pre suf. d # s = pre @ t @ suf"
    proof cases
      case 1
      then obtain suf where "d # s = t @ suf" using startsWith_iff by blast
      then have "d # s = [] @ t @ suf" by simp
      then show ?thesis by blast
    next
      case 2
      then obtain pre suf where "s = pre @ t @ suf" using Cons.IH by blast
      then have "d # s = (d # pre) @ t @ suf" by simp
      then show ?thesis by blast
    qed
  next
    assume "\<exists>pre suf. d # s = pre @ t @ suf"
    then obtain pre suf where eq: "d # s = pre @ t @ suf" by blast
    show "includes_str (d # s) t"
    proof (cases pre)
      case Nil
      with eq have "startsWith (d # s) t" using startsWith_iff by auto
      then show ?thesis by simp
    next
      case (Cons p ps)
      with eq have "s = ps @ t @ suf" by simp
      then have "includes_str s t" using Cons.IH by blast
      then show ?thesis by simp
    qed
  qed
qed

text \<open>
  Claim C1.  For every list of orders \<open>os\<close>, search term \<open>q\<close> and status filter
  \<open>f\<close>, and whatever the lower-casing \<open>lower\<close> of the language does, the
  filtered orders are exactly the orders of \<open>os\<close> (in their order) whose
  identifier, customer name or customer email, lower-cased, has the lower-cased
  search term as a contiguous substring, and whose status is the filter's (or
  the filter is \<open>all\<close>).  Two search terms with the same lower-casing (terms
  that differ only in case) select the same orders.  Filtering the result again
  with the same term and filter returns it unchanged.
\<close>

theorem filteredOrders_exact:
  fixes os :: "'n Order list"
  shows
  "filteredOrders lower os q f =
     filter (\<lambda>x.
        ((\<exists>pre suf. lower (order_id x) = pre @ lower q @ suf) \<or>
         (\<exists>pre suf. lower (customer_name x) = pre @ lower q @ suf) \<or>
         (\<exists>pre suf. lower (customer_email x) = pre @ lower q @ suf)) \<and>
        (f = All \<or> f = Only (status x))) os
   \<and> set (filteredOrders lower os q f) =
     {x. x \<in> set os \<and>
        ((\<exists>pre suf. lower (order_id x) = pre @ lower q @ suf) \<or>
         (\<exists>pre suf. lower (customer_name x) = pre @ lower q @ suf) \<or>
         (\<exists>pre suf. lower (customer_email x) = pre @ lower q @ suf)) \<and>
        (f = All \<or> f = Only (status x))}
   \<and> (lower q = lower q' \<longrightarrow> filteredOrders lower os q f = filteredOrders lower os q' f)
   \<and> filteredOrders lower (filteredOrders lower os q f) q f = filteredOrders lower os q f"
proof -
  have pred: "\<And>x :: 'n Order. (matchesSearch lower q x \<and> matchesStatus f x) =
     (((\<exists>pre suf. lower (order_id x) = pre @ lower q @ suf) \<or>
       (\<exists>pre suf. lower (customer_name x) = pre @ lower q @ suf) \<or>
       (\<exists>pre suf. lower (customer_email x) = pre @ lower q @ suf)) \<and>
      (f = All \<or> f = Only (status x)))"
    unfolding matchesSearch_def matchesStatus_def includes_str_iff
    by (rule arg_cong2[where f="(\<and>)"]) auto
  have l: "filteredOrders lower os q f =
     filter (\<lambda>x.
        ((\<exists>pre suf. lower (order_id x) = pre @ lower q @ suf) \<or>
         (\<exists>pre suf. lower (customer_name x) = pre @ lower q @ suf) \<or>
         (\<exists>pre suf. lower (customer_email x) = pre @ lower q @ suf)) \<and>
        (f = All \<or> f = Only (status x))) os"
    unfolding filteredOrders_def pred ..
  have s: "set (filteredOrders lower os q f) =
     {x. x \<in> set os \<and>
        ((\<exists>pre suf. lower (order_id x) = pre @ lower q @ suf) \<or>
         (\<exists>pre suf. lower (customer_name x) = pre @ lower q @ suf) \<or>
         (\<exists>pre suf. lower (customer_email x) = pre @ lower q @ suf)) \<and>
        (f = All \<or> f = Only (status x))}"
    unfolding l by (rule set_filter)
  have c: "lower q = lower q' \<longrightarrow>
      filteredOrders lower os q f = filteredOrders lower os q' f"
    unfolding filteredOrders_def matchesSearch_def by simp
  have i: "filteredOrders lower (filteredOrders lower os q f) q f = filteredOrders lower os q f"
    unfolding filteredOrders_def by simp
  from l s c i show ?thesis by (intro conjI)
qed

theorem filteredOrders_exact_witness:
  "filteredOrders latin1ToLowerCase (sampleOrders @ [sampleOrderZola]) ''ALI'' (Only Pending)
     = [sampleOrder]
   \<and> filteredOrders latin1ToLowerCase (sampleOrders @ [sampleOrderZola]) ''ali'' (Only Pending)
     = [sampleOrder]
   \<and> filteredOrders latin1ToLowerCase (sampleOrders @ [sampleOrderZola])
        (CHR 0xE9 # ''mile'') All = [sampleOrderZola]
   \<and> filteredOrders latin1ToLowerCase
        (filteredOrders latin1ToLowerCase (sampleOrders @ [sampleOrderZola]) ''ALI''
           (Only Pending)) ''ALI'' (Only Pending)
     = [sampleOrder]"
proof -
  have e: "filteredOrders latin1ToLowerCase (sampleOrders @ [sampleOrderZola]) ''ALI''
             (Only Pending) = [sampleOrder]"
    by code_simp
  have z: "filteredOrders latin1ToLowerCase (sampleOrders @ [sampleOrderZola])
        (CHR 0xE9 # ''mile'') All = [sampleOrderZola]"
    by code_simp
  have lc: "latin1ToLowerCase ''ALI'' = latin1ToLowerCase ''ali''" by code_simp
  note th = filteredOrders_exact[of latin1ToLowerCase "sampleOrders @ [sampleOrderZola]"
              "''ALI''" "Only Pending" "''ali''"]
  have a: "filteredOrders latin1ToLowerCase (sampleOrders @ [sampleOrderZola]) ''ALI''
             (Only Pending)
           = filteredOrders latin1ToLowerCase (sampleOrders @ [sampleOrderZola]) ''ali''
             (Only Pending)"
    by (rule mp[OF conjunct1[OF conjunct2[OF conjunct2[OF th]]] lc])
  have i: "filteredOrders latin1ToLowerCase
        (filteredOrders latin1ToLowerCase (sampleOrders @ [sampleOrderZola]) ''ALI''
           (Only Pending)) ''ALI'' (Only Pending)
     = filteredOrders latin1ToLowerCase (sampleOrders @ [sampleOrderZola]) ''ALI''
           (Only Pending)"
    by (rule conjunct2[OF conjunct2[OF conjunct2[OF th]]])
  from e z a i show ?thesis by simp
qed

subsection \<open>Pagination\<close>

lemma take_drop_nth:
  "take m (drop k xs) = map ((!) xs) [k..<min (k + m) (length xs)]"
  by (auto simp: list_eq_iff_nth_eq)

lemma slice_nonneg:
  assumes "0 \<le> a" "a \<le> b"
  shows "slice xs a b = map ((!) xs) [nat a..<min (nat b) (length xs)]"
proof (cases "a \<le> int (length xs)")
  case True
  with assms have "slice xs a b = take (nat (min b (int (length xs)) - a)) (drop (nat a) xs)"
    by (simp add: slice_def Let_def min_def)
  also have "\<dots> = map ((!) xs) [nat a..<min (nat a + nat (min b (int (length xs)) - a)) (length xs)]"
    by (rule take_drop_nth)
  also have "min (nat a + nat (min b (int (length xs)) - a)) (length xs) = min (nat b) (length xs)"
    using assms True by (auto simp: min_def)
  finally show ?thesis .
next
  case False
  with assms have "slice xs a b = []" by (simp add: slice_def Let_def min_def)
  moreover from False assms have "[nat a..<min (nat b) (length xs)] = []" by auto
  ultimately show ?thesis by simp
qed

lemma pageCount_div: "pageCount fs = (int (length fs) + 9) div 10"
proof -
  define z where "z = (int (length fs) + 9) div 10"
  have i1: "int (length fs) \<le> 10 * z" and i2: "10 * z - 10 < int (length fs)"
    unfolding z_def by presburger+
  from i1 have "real_of_int (int (length fs)) \<le> real_of_int (10 * z)"
    by (simp only: of_int_le_iff)
  then have r1: "real (length fs) / 10 \<le> real_of_int z" by simp
  from i2 have "real_of_int (10 * z - 10) < real_of_int (int (length fs))"
    by (simp only: of_int_less_iff)
  then have r2: "real_of_int z - 1 < real (length fs) / 10" by simp
  have "\<lceil>real (length fs) / 10\<rceil> = z"
    by (rule ceiling_unique[OF r2 r1])
  then show ?thesis by (simp add: pageCount_def ordersPerPage_def z_def)
qed

text \<open>
  Claim C4.  For a filtered list of \<open>n\<close> orders the page count is the ceiling of
  \<open>n / 10\<close>, that is \<open>(n + 9) div 10\<close>, the least number of pages of ten that
  hold \<open>n\<close> orders; for \<open>n = 0\<close> the page count is \<open>0\<close> and no page link is
  rendered, whatever the current page \<open>p\<close>.
\<close>

theorem pageCount_ceiling:
  "pageCount fs = \<lceil>real (length fs) / 10\<rceil>
   \<and> pageCount fs = (int (length fs) + 9) div 10
   \<and> int (length fs) \<le> 10 * pageCount fs \<and> 10 * (pageCount fs - 1) < int (length fs)
   \<and> (length fs = 0 \<longrightarrow> pageCount fs = 0 \<and> pageLinks fs p = [])"
proof -
  have c: "pageCount fs = \<lceil>real (length fs) / 10\<rceil>"
    by (simp add: pageCount_def ordersPerPage_def)
  have d: "pageCount fs = (int (length fs) + 9) div 10" by (rule pageCount_div)
  have b: "int (length fs) \<le> 10 * pageCount fs" "10 * (pageCount fs - 1) < int (length fs)"
    unfolding d by presburger+
  have z: "pageCount fs = 0 \<and> pageLinks fs p = []" if "length fs = 0"
    using that by (simp add: pageCount_def pageLinks_def)
  from c d b z show ?thesis by blast
qed

theorem pageCount_ceiling_witness:
  "length ([] :: nat Order list) = 0 \<and> pageCount ([] :: nat Order list) = 0
   \<and> pageLinks ([] :: nat Order list) 1 = []
   \<and> pageCount (replicate 23 sampleOrder) = 3"
proof -
  have "pageCount ([] :: nat Order list) = 0 \<and> pageLinks ([] :: nat Order list) 1 = []"
    using pageCount_ceiling[of "[] :: nat Order list" 1] by simp
  moreover have "pageCount (replicate 23 sampleOrder) = 3"
    using pageCount_ceiling[of "replicate 23 sampleOrder" 1] by simp
  ultimately show ?thesis by simp
qed

text \<open>
  Claim C5.  For every filtered list \<open>fs\<close> and every current page \<open>p \<ge> 1\<close> the
  displayed rows are the filtered orders at the zero-based offsets from
  \<open>(p - 1) * 10\<close> up to \<open>min (p * 10) (length fs) - 1\<close>, in that order; with 23
  filtered orders page 3 shows the three orders at offsets 20, 21 and 22.
\<close>

theorem currentOrders_offsets:
  assumes "1 \<le> p"
  shows "currentOrders fs p = map ((!) fs) [nat ((p - 1) * 10)..<min (nat (p * 10)) (length fs)]
       \<and> (length fs = 23 \<and> p = 3 \<longrightarrow> currentOrders fs p = [fs ! 20, fs ! 21, fs ! 22])"
proof -
  have a: "indexOfFirstOrder p = (p - 1) * 10" "indexOfLastOrder p = p * 10"
    by (simp_all add: indexOfFirstOrder_def indexOfLastOrder_def ordersPerPage_def algebra_simps)
  have gen: "currentOrders fs p = map ((!) fs) [nat ((p - 1) * 10)..<min (nat (p * 10)) (length fs)]"
    unfolding currentOrders_def a using assms by (intro slice_nonneg) auto
  have "currentOrders fs p = [fs ! 20, fs ! 21, fs ! 22]" if "length fs = 23" "p = 3"
  proof -
    have "[20..<23] = [20, 21, 22::nat]" by (simp add: upt_rec)
    with that show ?thesis unfolding gen by simp
  qed
  with gen show ?thesis by blast
qed

theorem currentOrders_offsets_witness:
  "(1::int) \<le> 3 \<and> length [100..<123] = 23
   \<and> currentOrders [100..<123] 3 = [120, 121, 122]
   \<and> currentOrders [100..<123] 2 = [110, 111, 112, 113, 114, 115, 116, 117, 118, 119]"
proof -
  have h: "(1::int) \<le> 3" and h2: "(1::int) \<le> 2" by simp_all
  have l: "length [100..<123] = 23" by simp
  have n: "[100..<123] ! 20 = 120" "[100..<123] ! 21 = 121" "[100..<123] ! 22 = 122"
    by simp_all
  from currentOrders_offsets[OF h, of "[100..<123]"] l
  have p3: "currentOrders [100..<123] 3 = [120, 121, 122]"
    unfolding n by simp
  have u: "[10..<20] = [10, 11, 12, 13, 14, 15, 16, 17, 18, 19::nat]" by (simp add: upt_rec)
  from currentOrders_offsets[OF h2, of "[100..<123]"]
  have p2: "currentOrders [100..<123] 2 = map ((!) [100..<123]) [10..<20]"
    by simp
  have "currentOrders [100..<123] 2 = [110, 111, 112, 113, 114, 115, 116, 117, 118, 119]"
    unfolding p2 u by simp
  with h l p3 show ?thesis by simp
qed

subsection \<open>Status update\<close>

text \<open>The three outcomes of the answer, each as the state it leaves, whatever
  the closure and whatever the state has become meanwhile.\<close>

lemma resume_error:
  "error resp = Some err \<Longrightarrow>
   updateOrderStatus_resume closure resp page =
     page\<lparr>toasts := toasts page @
              [\<lparr>title = ''Error updating status'',
                description = messageOr err ''An unexpected error occurred.'',
                variant = Some Destructive\<rparr>]\<rparr>"
  by (simp add: updateOrderStatus_resume_def toast_call_def)

lemma resume_rows:
  "error resp = None \<Longrightarrow> data resp = Some (row # others) \<Longrightarrow>
   updateOrderStatus_resume closure resp page =
     page\<lparr>toasts := toasts page @
              [\<lparr>title = ''Order status updated'',
                description = ''Order '' @ closure_orderId closure @ '' status changed to ''
                              @ statusName (closure_newStatus closure),
                variant = None\<rparr>],
           orders := map (\<lambda>x. if order_id x = closure_orderId closure
                               then x\<lparr>status := status row\<rparr> else x)
                         (closure_orders closure)\<rparr>"
  by (simp add: updateOrderStatus_resume_def toast_call_def)

lemma resume_no_rows:
  "error resp = None \<Longrightarrow> data resp = None \<or> data resp = Some [] \<Longrightarrow>
   updateOrderStatus_resume closure resp page =
     page\<lparr>toasts := toasts page @
              [\<lparr>title = ''Failed to update status'',
                description = ''Order not found or no changes made.'',
                variant = Some Destructive\<rparr>]\<rparr>"
  by (erule disjE) (simp_all add: updateOrderStatus_resume_def toast_call_def)

text \<open>The same for an update that nothing interrupts.\<close>

lemma updateOrderStatus_error:
  "error resp = Some err \<Longrightarrow>
   updateOrderStatus X S resp page =
     page\<lparr>toasts := toasts page @
              [\<lparr>title = ''Error updating status'',
                description = messageOr err ''An unexpected error occurred.'',
                variant = Some Destructive\<rparr>],
           requests := requests page @ [UpdateStatus X S]\<rparr>"
  by (simp add: updateOrderStatus_def updateOrderStatus_call_def resume_error)

lemma updateOrderStatus_rows:
  "error resp = None \<Longrightarrow> data resp = Some (row # others) \<Longrightarrow>
   updateOrderStatus X S resp page =
     page\<lparr>toasts := toasts page @
              [\<lparr>title = ''Order status updated'',
                description = ''Order '' @ X @ '' status changed to '' @ statusName S,
                variant = None\<rparr>],
           orders := map (\<lambda>x. if order_id x = X then x\<lparr>status := status row\<rparr> else x)
                         (orders page),
           requests := requests page @ [UpdateStatus X S]\<rparr>"
  by (simp add: updateOrderStatus_def updateOrderStatus_call_def resume_rows)

lemma updateOrderStatus_no_rows:
  "error resp = None \<Longrightarrow> data resp = None \<or> data resp = Some [] \<Longrightarrow>
   updateOrderStatus X S resp page =
     page\<lparr>toasts := toasts page @
              [\<lparr>title = ''Failed to update status'',
                description = ''Order not found or no changes made.'',
                variant = Some Destructive\<rparr>],
           requests := requests page @ [UpdateStatus X S]\<rparr>"
  by (simp add: updateOrderStatus_def updateOrderStatus_call_def resume_no_rows)

text \<open>
  An update that nothing interrupts changes, in the list of orders, only the
  status of the orders whose identifier is \<open>X\<close>; it issues the update and no
  fetch, and raises the confirmation toast.
\<close>

lemma updateOrderStatus_uninterrupted_frame:
  assumes "error resp = None" and "data resp = Some (row # others)"
  shows
  "updateOrderStatus X S resp page =
     page\<lparr>toasts := toasts page @
              [\<lparr>title = ''Order status updated'',
                description = ''Order '' @ X @ '' status changed to '' @ statusName S,
                variant = None\<rparr>],
           orders := map (\<lambda>x. if order_id x = X then x\<lparr>status := status row\<rparr> else x)
                         (orders page),
           requests := requests page @ [UpdateStatus X S]\<rparr>
   \<and> length (orders (updateOrderStatus X S resp page)) = length (orders page)
   \<and> (\<forall>i < length (orders page).
        (let old = orders page ! i; new = orders (updateOrderStatus X S resp page) ! i
         in order_id new = order_id old \<and> customer_name new = customer_name old
            \<and> customer_email new = customer_email old \<and> order_date new = order_date old
            \<and> total_amount new = total_amount old \<and> items new = items old
            \<and> shipping_address new = shipping_address old
            \<and> (order_id old = X \<longrightarrow> new = old\<lparr>status := status row\<rparr>)
            \<and> (order_id old \<noteq> X \<longrightarrow> new = old)))
   \<and> requests (updateOrderStatus X S resp page) = requests page @ [UpdateStatus X S]
   \<and> SelectOrders \<notin> set [UpdateStatus X S]
   \<and> toasts (updateOrderStatus X S resp page) =
       toasts page @
         [\<lparr>title = ''Order status updated'',
           description = ''Order '' @ X @ '' status changed to '' @ statusName S,
           variant = None\<rparr>]"
proof -
  note eq = updateOrderStatus_rows[OF assms, of X S page]
  have f: "\<forall>i < length (orders page).
        (let old = orders page ! i; new = orders (updateOrderStatus X S resp page) ! i
         in order_id new = order_id old \<and> customer_name new = customer_name old
            \<and> customer_email new = customer_email old \<and> order_date new = order_date old
            \<and> total_amount new = total_amount old \<and> items new = items old
            \<and> shipping_address new = shipping_address old
            \<and> (order_id old = X \<longrightarrow> new = old\<lparr>status := status row\<rparr>)
            \<and> (order_id old \<noteq> X \<longrightarrow> new = old))"
    unfolding eq by (simp add: Let_def)
  show ?thesis
    apply (intro conjI)
         apply (rule eq)
        apply (simp add: eq)
       apply (rule f)
      apply (simp add: eq)
     apply simp
    apply (simp add: eq)
    done
qed

text \<open>
  Claim C2.  The frame fails when two updates are in flight.  Both handlers
  belong to the same render, so both closures hold the list of orders of that
  render.  The first answer sets \<open>ORD-2\<close> to \<open>completed\<close>; the second answer, for
  \<open>ORD-1\<close>, writes back a list computed from the closure's old array, and
  \<open>ORD-2\<close>, which is not the order being updated, falls back to \<open>shipped\<close>.
\<close>

theorem updateOrderStatus_stale_closure:
  "(case updateOrderStatus_call ''ORD-2'' Completed samplePage of
      (first, page1) \<Rightarrow>
        (case updateOrderStatus_call ''ORD-1'' Completed page1 of
           (second, page2) \<Rightarrow>
             map order_id (orders page2) = [''ORD-1'', ''ORD-2'', ''ORD-3'']
             \<and> map status (orders page2) = [Pending, Shipped, Pending]
             \<and> map status (orders (updateOrderStatus_resume first secondRowResponse page2))
                 = [Pending, Completed, Pending]
             \<and> map status
                  (orders (updateOrderStatus_resume second rowResponse
                             (updateOrderStatus_resume first secondRowResponse page2)))
                 = [Completed, Shipped, Pending]))"
  by (simp add: updateOrderStatus_call_def updateOrderStatus_resume_def toast_call_def
        samplePage_def sampleOrders_def sampleOrder_def rowResponse_def
        secondRowResponse_def)

text \<open>
  Claim C3.  When the update is answered with an error, the view raises the
  destructive toast \<open>Error updating status\<close> and its list of orders is exactly
  what it was; apart from the toast and the logged request nothing in the
  view's state changes.  This holds as well for an answer that arrives after
  the state has changed: whatever the closure, the answer adds the toast and
  nothing else.
\<close>

theorem updateOrderStatus_error_atomic:
  assumes "error resp = Some err"
  shows
  "orders (updateOrderStatus X S resp page) = orders page
   \<and> toasts (updateOrderStatus X S resp page) =
       toasts page @
         [\<lparr>title = ''Error updating status'',
           description = messageOr err ''An unexpected error occurred.'',
           variant = Some Destructive\<rparr>]
   \<and> updateOrderStatus X S resp page =
       page\<lparr>toasts := toasts (updateOrderStatus X S resp page),
            requests := requests page @ [UpdateStatus X S]\<rparr>
   \<and> updateOrderStatus_resume closure resp page =
       page\<lparr>toasts := toasts page @
              [\<lparr>title = ''Error updating status'',
                description = messageOr err ''An unexpected error occurred.'',
                variant = Some Destructive\<rparr>]\<rparr>
   \<and> orders (updateOrderStatus_resume closure resp page) = orders page"
  by (simp add: updateOrderStatus_error[OF assms] resume_error[OF assms])

theorem updateOrderStatus_error_atomic_witness:
  "error failedResponse = Some \<lparr>message = Some ''Failed to fetch''\<rparr>
   \<and> orders (updateOrderStatus ''ORD-1'' Shipped failedResponse samplePage) = sampleOrders
   \<and> toasts (updateOrderStatus ''ORD-1'' Shipped failedResponse samplePage) =
       [\<lparr>title = ''Error updating status'', description = ''Failed to fetch'',
         variant = Some Destructive\<rparr>]"
proof -
  have e: "error failedResponse = Some \<lparr>message = Some ''Failed to fetch''\<rparr>"
    by (simp add: failedResponse_def)
  note th = updateOrderStatus_error_atomic[OF e, of "''ORD-1''" Shipped samplePage]
  from th have o: "orders (updateOrderStatus ''ORD-1'' Shipped failedResponse samplePage)
      = orders samplePage"
    by (rule conjunct1)
  from th have t: "toasts (updateOrderStatus ''ORD-1'' Shipped failedResponse samplePage) =
       toasts samplePage @
         [\<lparr>title = ''Error updating status'',
           description = messageOr \<lparr>message = Some ''Failed to fetch''\<rparr>
                           ''An unexpected error occurred.'',
           variant = Some Destructive\<rparr>]"
    by (rule conjunct1[OF conjunct2])
  show ?thesis unfolding o t by (simp add: e samplePage_def messageOr_def)
qed

text \<open>
  Claim C10.  When the update is answered without error but with no row
  (\<open>null\<close> or an empty array), the list of orders is unchanged and the
  destructive toast \<open>Failed to update status\<close> is raised.  The list of orders
  changes, or the confirmation toast is the one raised, only when the answer
  carries no error and at least one row; and then the status written is that
  of the first returned row, whatever the requested status \<open>S\<close> is.  The
  same holds of an answer that arrives after the state has changed, with the
  closure's list of orders in place of the state's.
\<close>

theorem updateOrderStatus_zero_rows:
  "(error resp = None \<and> (data resp = None \<or> data resp = Some []) \<longrightarrow>
      orders (updateOrderStatus X S resp page) = orders page
      \<and> toasts (updateOrderStatus X S resp page) =
          toasts page @
            [\<lparr>title = ''Failed to update status'',
              description = ''Order not found or no changes made.'',
              variant = Some Destructive\<rparr>])
   \<and> ((orders (updateOrderStatus X S resp page) \<noteq> orders page
        \<or> title (last (toasts (updateOrderStatus X S resp page))) = ''Order status updated'')
       \<longrightarrow> error resp = None \<and> (\<exists>row others. data resp = Some (row # others)))
   \<and> (\<forall>row others. error resp = None \<and> data resp = Some (row # others) \<longrightarrow>
        orders (updateOrderStatus X S resp page) =
          map (\<lambda>x. if order_id x = X then x\<lparr>status := status row\<rparr> else x) (orders page)
        \<and> (\<forall>x \<in> set (orders (updateOrderStatus X S resp page)).
              order_id x = X \<longrightarrow> status x = status row))
   \<and> (error resp = None \<and> (data resp = None \<or> data resp = Some []) \<longrightarrow>
        updateOrderStatus_resume closure resp page =
          page\<lparr>toasts := toasts page @
                 [\<lparr>title = ''Failed to update status'',
                   description = ''Order not found or no changes made.'',
                   variant = Some Destructive\<rparr>]\<rparr>)
   \<and> (\<forall>row others. error resp = None \<and> data resp = Some (row # others) \<longrightarrow>
        orders (updateOrderStatus_resume closure resp page) =
          map (\<lambda>x. if order_id x = closure_orderId closure
                    then x\<lparr>status := status row\<rparr> else x)
              (closure_orders closure))"
proof (intro conjI impI allI ballI)
  assume a: "error resp = None \<and> (data resp = None \<or> data resp = Some [])"
  then have e: "error resp = None" and d: "data resp = None \<or> data resp = Some []"
    by blast+
  note eq = updateOrderStatus_no_rows[OF e d, of X S page]
  show "orders (updateOrderStatus X S resp page) = orders page"
    unfolding eq by simp
  show "toasts (updateOrderStatus X S resp page) =
          toasts page @
            [\<lparr>title = ''Failed to update status'',
              description = ''Order not found or no changes made.'',
              variant = Some Destructive\<rparr>]"
    unfolding eq by simp
next
  assume c: "orders (updateOrderStatus X S resp page) \<noteq> orders page
        \<or> title (last (toasts (updateOrderStatus X S resp page))) = ''Order status updated''"
  show "error resp = None"
  proof (cases "error resp")
    case None
    then show ?thesis .
  next
    case (Some err)
    note eq = updateOrderStatus_error[OF Some, of X S page]
    from c show ?thesis unfolding eq by simp
  qed
next
  assume c: "orders (updateOrderStatus X S resp page) \<noteq> orders page
        \<or> title (last (toasts (updateOrderStatus X S resp page))) = ''Order status updated''"
  show "\<exists>row others. data resp = Some (row # others)"
  proof (cases "error resp")
    case (Some err)
    note eq = updateOrderStatus_error[OF Some, of X S page]
    from c show ?thesis unfolding eq by simp
  next
    case None
    show ?thesis
    proof (cases "data resp")
      case N: None
      then have d: "data resp = None \<or> data resp = Some []" by simp
      note eq = updateOrderStatus_no_rows[OF None d, of X S page]
      from c show ?thesis unfolding eq by simp
    next
      case (Some rows)
      show ?thesis
      proof (cases rows)
        case Nil
        with Some have d: "data resp = None \<or> data resp = Some []" by simp
        note eq = updateOrderStatus_no_rows[OF None d, of X S page]
        from c show ?thesis unfolding eq by simp
      next
        case (Cons row others)
        with Some show ?thesis by simp
      qed
    qed
  qed
next
  fix row others
  assume a: "error resp = None \<and> data resp = Some (row # others)"
  then have e: "error resp = None" and d: "data resp = Some (row # others)" by blast+
  note eq = updateOrderStatus_rows[OF e d, of X S page]
  show "orders (updateOrderStatus X S resp page) =
          map (\<lambda>x. if order_id x = X then x\<lparr>status := status row\<rparr> else x) (orders page)"
    unfolding eq by simp
next
  fix row others x
  assume a: "error resp = None \<and> data resp = Some (row # others)"
    and x: "x \<in> set (orders (updateOrderStatus X S resp page))" and i: "order_id x = X"
  from a have e: "error resp = None" and d: "data resp = Some (row # others)" by blast+
  note eq = updateOrderStatus_rows[OF e d, of X S page]
  from x have "x \<in> set (map (\<lambda>x. if order_id x = X then x\<lparr>status := status row\<rparr> else x) (orders page))"
    unfolding eq by simp
  then obtain y where "y \<in> set (orders page)"
    and "x = (if order_id y = X then y\<lparr>status := status row\<rparr> else y)"
    by auto
  with i show "status x = status row" by (cases "order_id y = X") auto
next
  assume a: "error resp = None \<and> (data resp = None \<or> data resp = Some [])"
  then have e: "error resp = None" and d: "data resp = None \<or> data resp = Some []"
    by blast+
  show "updateOrderStatus_resume closure resp page =
          page\<lparr>toasts := toasts page @
                 [\<lparr>title = ''Failed to update status'',
                   description = ''Order not found or no changes made.'',
                   variant = Some Destructive\<rparr>]\<rparr>"
    by (rule resume_no_rows[OF e d])
next
  fix row others
  assume a: "error resp = None \<and> data resp = Some (row # others)"
  then have e: "error resp = None" and d: "data resp = Some (row # others)" by blast+
  show "orders (updateOrderStatus_resume closure resp page) =
          map (\<lambda>x. if order_id x = closure_orderId closure
                    then x\<lparr>status := status row\<rparr> else x)
              (closure_orders closure)"
    unfolding resume_rows[OF e d] by simp
qed

theorem updateOrderStatus_zero_rows_witness:
  "error emptyResponse = None \<and> data emptyResponse = Some []
   \<and> orders (updateOrderStatus ''ORD-1'' Shipped emptyResponse samplePage) = sampleOrders
   \<and> toasts (updateOrderStatus ''ORD-1'' Shipped emptyResponse samplePage) =
       [\<lparr>title = ''Failed to update status'',
         description = ''Order not found or no changes made.'',
         variant = Some Destructive\<rparr>]
   \<and> orders (updateOrderStatus ''ORD-1'' Shipped rowResponse samplePage) =
       [sampleOrder\<lparr>status := Completed\<rparr>,
        sampleOrder\<lparr>order_id := ''ORD-2'', status := Shipped\<rparr>,
        sampleOrder\<lparr>order_id := ''ORD-3'', customer_name := ''Bob Iyer'',
                     customer_email := ''bob@example.com''\<rparr>]"
proof -
  have e: "error emptyResponse = None" and d: "data emptyResponse = Some []"
    by (simp_all add: emptyResponse_def)
  have re: "error rowResponse = None"
    and rd: "data rowResponse = Some (sampleOrder\<lparr>status := Completed\<rparr> # [])"
    by (simp_all add: rowResponse_def)
  from e d have h: "error emptyResponse = None
      \<and> (data emptyResponse = None \<or> data emptyResponse = Some [])"
    by simp
  note z = mp[OF conjunct1[OF updateOrderStatus_zero_rows[of emptyResponse "''ORD-1''" Shipped samplePage]] h]
  note r = conjunct2[OF conjunct2[OF updateOrderStatus_zero_rows[of rowResponse "''ORD-1''" Shipped samplePage]]]
  from r re rd have w:
    "orders (updateOrderStatus ''ORD-1'' Shipped rowResponse samplePage) =
       map (\<lambda>x. if order_id x = ''ORD-1''
                 then x\<lparr>status := status (sampleOrder\<lparr>status := Completed\<rparr>)\<rparr> else x)
           (orders samplePage)"
    by blast
  show ?thesis
    unfolding w using z e d by (simp add: samplePage_def sampleOrders_def sampleOrder_def)
qed

subsection \<open>Page links\<close>

lemma pageLinks_eval:
  "pageLinks fs p =
     (if fs = [] then []
      else map (pageNumber p (pageCount fs)) [0..<nat (min 5 (pageCount fs))])"
proof (cases "fs = []")
  case True
  then show ?thesis by (simp add: pageLinks_def)
next
  case False
  then have "1 \<le> pageCount fs"
    unfolding pageCount_div using length_greater_0_conv[of fs] by presburger
  then have "\<And>i. pageLinkItem p (pageCount fs) i = Some (pageNumber p (pageCount fs) i)"
    by (simp add: pageLinkItem_def pageNumber_def Let_def)
  then have "pageLinkItems p (pageCount fs)
      = map (\<lambda>i. Some (pageNumber p (pageCount fs) i)) [0..<nat (min 5 (pageCount fs))]"
    by (simp add: pageLinkItems_def)
  then have "concat (map (\<lambda>item. case item of None \<Rightarrow> [] | Some n \<Rightarrow> [n])
                       (pageLinkItems p (pageCount fs)))
     = map (pageNumber p (pageCount fs)) [0..<nat (min 5 (pageCount fs))]"
    by (simp add: map_concat o_def concat_map_singleton)
  with False show ?thesis by (simp add: pageLinks_def)
qed

lemma pageLinks_in_range:
  "length (pageLinks fs p) \<le> 5 \<and> (\<forall>n \<in> set (pageLinks fs p). 1 \<le> n \<and> n \<le> pageCount fs)"
proof (cases "fs = []")
  case True
  then show ?thesis by (simp add: pageLinks_def)
next
  case False
  then have pc: "1 \<le> pageCount fs"
    unfolding pageCount_div using length_greater_0_conv[of fs] by presburger
  from False have eq: "pageLinks fs p = map (pageNumber p (pageCount fs)) [0..<nat (min 5 (pageCount fs))]"
    by (simp add: pageLinks_eval)
  have "length (pageLinks fs p) \<le> 5" unfolding eq by simp
  moreover have "\<forall>n \<in> set (pageLinks fs p). 1 \<le> n \<and> n \<le> pageCount fs"
    unfolding eq using pc by (auto simp: pageNumber_def)
  ultimately show ?thesis by blast
qed

text \<open>
  Claim C6.  On the first page of 23 filtered orders (three pages) the three
  rendered links all carry the number 1: the links are not distinct and pages 2
  and 3 have no link.  With 100 orders (ten pages) page 1 shows 1, 1, 1, 2, 3 and
  page 10 shows 8, 9, 10, 10, 10: each number is clamped into the range on its
  own, so near either end the window of five does not shift, it repeats the end
  page.
\<close>

theorem pageLinks_repeat_first_page:
  "pageCount (replicate 23 sampleOrder) = 3
   \<and> pageLinks (replicate 23 sampleOrder) 1 = [1, 1, 1]
   \<and> \<not> distinct (pageLinks (replicate 23 sampleOrder) 1)
   \<and> 2 \<notin> set (pageLinks (replicate 23 sampleOrder) 1)
   \<and> pageLinks (replicate 100 sampleOrder) 1 = [1, 1, 1, 2, 3]
   \<and> pageLinks (replicate 100 sampleOrder) 10 = [8, 9, 10, 10, 10]"
proof -
  have u3: "[0..<3] = [0, 1, 2::nat]" and u5: "[0..<5] = [0, 1, 2, 3, 4::nat]"
    by (simp_all add: upt_rec)
  have c23: "pageCount (replicate 23 sampleOrder) = 3"
    and c100: "pageCount (replicate 100 sampleOrder) = 10"
    by (simp_all add: pageCount_div)
  have n23: "replicate 23 sampleOrder \<noteq> []" and n100: "replicate 100 sampleOrder \<noteq> []"
    by simp_all
  have a: "pageLinks (replicate 23 sampleOrder) 1 = [1, 1, 1]"
    unfolding pageLinks_eval c23 using n23 by (simp add: u3 pageNumber_def)
  have b: "pageLinks (replicate 100 sampleOrder) 1 = [1, 1, 1, 2, 3]"
    unfolding pageLinks_eval c100 using n100 by (simp add: u5 pageNumber_def)
  have c: "pageLinks (replicate 100 sampleOrder) 10 = [8, 9, 10, 10, 10]"
    unfolding pageLinks_eval c100 using n100 by (simp add: u5 pageNumber_def)
  show ?thesis unfolding a b c c23 by simp
qed

section \<open>Properties of the product card\<close>

subsection \<open>Add to cart\<close>

lemma select_one:
  "filter (cart_match uid pid) (cart_items db) = [r] \<Longrightarrow>
   cart_select_maybeSingle None uid pid db = \<lparr>data = Some r, error = None\<rparr>"
  by (simp add: cart_select_maybeSingle_def)

lemma select_none:
  "filter (cart_match uid pid) (cart_items db) = [] \<Longrightarrow>
   cart_select_maybeSingle None uid pid db = \<lparr>data = None, error = None\<rparr>"
  by (simp add: cart_select_maybeSingle_def)

lemma addToCart_present:
  assumes "inStock props"
    and "cart_select_maybeSingle None (user_id u) (prod_id props) db = \<lparr>data = Some r, error = None\<rparr>"
  shows "handleAddToCart props (Some u) None insertFault (st, db) =
     (st\<lparr>toasts := toasts st @
              [\<lparr>title = ''Already in Cart'',
                description = prod_name props @ '' is already in your cart.'',
                variant = None\<rparr>],
         isAddingToCart := False\<rparr>, db)"
  using assms by (simp add: handleAddToCart_def toast_call_def Let_def)

lemma addToCart_absent:
  assumes "inStock props"
    and "cart_select_maybeSingle None (user_id u) (prod_id props) db = \<lparr>data = None, error = None\<rparr>"
  shows "handleAddToCart props (Some u) None None (st, db) =
     (st\<lparr>toasts := toasts st @
              [\<lparr>title = ''Added to Cart'',
                description = prod_name props @ '' has been added to your cart.'',
                variant = Some Success\<rparr>],
         isAddingToCart := False\<rparr>,
      db\<lparr>cart_items := cart_items db @
              [\<lparr>c_user_id = user_id u, c_product_id = prod_id props, c_quantity = 1\<rparr>],
         mutations := mutations db @ [CartInsert (user_id u) (prod_id props) 1]\<rparr>)"
  using assms by (simp add: handleAddToCart_def toast_call_def cart_insert_def Let_def)

text \<open>
  Claim C7.  For a signed-in user and a product in stock, with the existence
  check answered by the service: if the cart collection holds exactly one row
  for the (user, product) pair, the handler issues no mutation, leaves the
  collections as they are (the pair's row count stays 1) and raises the
  \<open>Already in Cart\<close> toast; if it holds no such row and the insert succeeds, the
  handler issues exactly one mutation, the insert of the row (user, product,
  quantity 1), which is appended to the collection, and raises the
  \<open>Added to Cart\<close> toast.
\<close>

theorem handleAddToCart_guarded:
  assumes "user = Some u" and "inStock props"
  shows
  "(length (filter (cart_match (user_id u) (prod_id props)) (cart_items db)) = 1 \<longrightarrow>
      (case handleAddToCart props user None insertFault (st, db) of
         (st', db') \<Rightarrow>
           db' = db \<and> mutations db' = mutations db
           \<and> length (filter (cart_match (user_id u) (prod_id props)) (cart_items db')) = 1
           \<and> toasts st' = toasts st @
                [\<lparr>title = ''Already in Cart'',
                  description = prod_name props @ '' is already in your cart.'',
                  variant = None\<rparr>]))
   \<and> (length (filter (cart_match (user_id u) (prod_id props)) (cart_items db)) = 0 \<longrightarrow>
      (case handleAddToCart props user None None (st, db) of
         (st', db') \<Rightarrow>
           cart_items db' = cart_items db @
             [\<lparr>c_user_id = user_id u, c_product_id = prod_id props, c_quantity = 1\<rparr>]
           \<and> mutations db' = mutations db @ [CartInsert (user_id u) (prod_id props) 1]
           \<and> wishlist db' = wishlist db
           \<and> length (filter (cart_match (user_id u) (prod_id props)) (cart_items db')) = 1
           \<and> toasts st' = toasts st @
                [\<lparr>title = ''Added to Cart'',
                  description = prod_name props @ '' has been added to your cart.'',
                  variant = Some Success\<rparr>]))"
proof (intro conjI impI)
  assume one: "length (filter (cart_match (user_id u) (prod_id props)) (cart_items db)) = 1"
  then obtain r where r: "filter (cart_match (user_id u) (prod_id props)) (cart_items db) = [r]"
    by (metis One_nat_def length_0_conv length_Suc_conv)
  note eq = addToCart_present[OF assms(2) select_one[OF r], of insertFault st]
  show "case handleAddToCart props user None insertFault (st, db) of
         (st', db') \<Rightarrow>
           db' = db \<and> mutations db' = mutations db
           \<and> length (filter (cart_match (user_id u) (prod_id props)) (cart_items db')) = 1
           \<and> toasts st' = toasts st @
                [\<lparr>title = ''Already in Cart'',
                  description = prod_name props @ '' is already in your cart.'',
                  variant = None\<rparr>]"
    unfolding assms(1) eq prod.case using one by simp
next
  assume zero: "length (filter (cart_match (user_id u) (prod_id props)) (cart_items db)) = 0"
  then have e: "filter (cart_match (user_id u) (prod_id props)) (cart_items db) = []"
    by simp
  note eq = addToCart_absent[OF assms(2) select_none[OF e], of st]
  have m: "cart_match (user_id u) (prod_id props)
             \<lparr>c_user_id = user_id u, c_product_id = prod_id props, c_quantity = 1\<rparr>"
    by (simp add: cart_match_def)
  show "case handleAddToCart props user None None (st, db) of
         (st', db') \<Rightarrow>
           cart_items db' = cart_items db @
             [\<lparr>c_user_id = user_id u, c_product_id = prod_id props, c_quantity = 1\<rparr>]
           \<and> mutations db' = mutations db @ [CartInsert (user_id u) (prod_id props) 1]
           \<and> wishlist db' = wishlist db
           \<and> length (filter (cart_match (user_id u) (prod_id props)) (cart_items db')) = 1
           \<and> toasts st' = toasts st @
                [\<lparr>title = ''Added to Cart'',
                  description = prod_name props @ '' has been added to your cart.'',
                  variant = Some Success\<rparr>]"
    unfolding assms(1) eq prod.case using e m by simp
qed

theorem handleAddToCart_guarded_witness:
  "inStock sampleProps
   \<and> handleAddToCart sampleProps (Some sampleUser) None None (sampleCard, sampleBackend) =
       (sampleCard\<lparr>toasts := [\<lparr>title = ''Already in Cart'',
                                description = ''Desk Lamp is already in your cart.'',
                                variant = None\<rparr>]\<rparr>,
        sampleBackend)
   \<and> snd (handleAddToCart sampleProps (Some sampleUser) None None
            (sampleCard, sampleBackend\<lparr>cart_items := []\<rparr>)) =
       sampleBackend\<lparr>cart_items := [\<lparr>c_user_id = ''u1'', c_product_id = 42, c_quantity = 1\<rparr>],
                     mutations := [CartInsert ''u1'' 42 1]\<rparr>"
proof -
  have s: "inStock sampleProps" by (simp add: sampleProps_def)
  have one: "length (filter (cart_match (user_id sampleUser) (prod_id sampleProps))
                       (cart_items sampleBackend)) = 1"
    by (simp add: sampleBackend_def sampleUser_def sampleProps_def cart_match_def)
  have zero: "length (filter (cart_match (user_id sampleUser) (prod_id sampleProps))
                       (cart_items (sampleBackend\<lparr>cart_items := []\<rparr>))) = 0"
    by simp
  note a = mp[OF conjunct1[OF handleAddToCart_guarded[where u = sampleUser
              and db = sampleBackend and insertFault = None and st = sampleCard, OF refl s]] one]
  note b = mp[OF conjunct2[OF handleAddToCart_guarded[where u = sampleUser
              and db = "sampleBackend\<lparr>cart_items := []\<rparr>" and st = sampleCard, OF refl s]] zero]
  have x: "handleAddToCart sampleProps (Some sampleUser) None None (sampleCard, sampleBackend) =
       (sampleCard\<lparr>toasts := [\<lparr>title = ''Already in Cart'',
                                description = ''Desk Lamp is already in your cart.'',
                                variant = None\<rparr>]\<rparr>,
        sampleBackend)"
    by (simp add: handleAddToCart_def cart_select_maybeSingle_def toast_call_def Let_def
          sampleProps_def sampleUser_def sampleCard_def sampleBackend_def cart_match_def)
  have y: "snd (handleAddToCart sampleProps (Some sampleUser) None None
            (sampleCard, sampleBackend\<lparr>cart_items := []\<rparr>)) =
       sampleBackend\<lparr>cart_items := [\<lparr>c_user_id = ''u1'', c_product_id = 42, c_quantity = 1\<rparr>],
                     mutations := [CartInsert ''u1'' 42 1]\<rparr>"
    using b by (cases "handleAddToCart sampleProps (Some sampleUser) None None
            (sampleCard, sampleBackend\<lparr>cart_items := []\<rparr>)")
      (simp add: sampleBackend_def sampleUser_def sampleProps_def)
  from a s x y show ?thesis by simp
qed

subsection \<open>Wishlist toggle\<close>

lemma toggle_remove:
  "isWishlisted st \<Longrightarrow>
   handleToggleWishlist props (Some u) None (st, db) =
     (st\<lparr>toasts := toasts st @
              [\<lparr>title = ''Removed from Wishlist'',
                description = prod_name props @ '' has been removed from your wishlist.'',
                variant = None\<rparr>],
         isWishlisted := False, isLoadingWishlist := False\<rparr>,
      db\<lparr>wishlist := filter (\<lambda>r. \<not> wishlist_match (user_id u) (prod_id props) r) (wishlist db),
         mutations := mutations db @ [WishlistDelete (user_id u) (prod_id props)]\<rparr>)"
  by (simp add: handleToggleWishlist_def wishlist_delete_def toast_call_def Let_def)

lemma toggle_add:
  "\<not> isWishlisted st \<Longrightarrow>
   handleToggleWishlist props (Some u) None (st, db) =
     (st\<lparr>toasts := toasts st @
              [\<lparr>title = ''Added to Wishlist'',
                description = prod_name props @ '' has been added to your wishlist.'',
                variant = Some Success\<rparr>],
         isWishlisted := True, isLoadingWishlist := False\<rparr>,
      db\<lparr>wishlist := wishlist db @ [\<lparr>w_user_id = user_id u, w_product_id = prod_id props\<rparr>],
         mutations := mutations db @ [WishlistInsert (user_id u) (prod_id props)]\<rparr>)"
  by (simp add: handleToggleWishlist_def wishlist_insert_def toast_call_def Let_def)

lemma single_match_mset:
  assumes "length (filter (wishlist_match uid pid) rows) = 1"
  shows "mset (filter (\<lambda>r. \<not> wishlist_match uid pid r) rows
                @ [\<lparr>w_user_id = uid, w_product_id = pid\<rparr>]) = mset rows"
proof -
  define P where "P = wishlist_match uid pid"
  define new where "new = \<lparr>w_user_id = uid, w_product_id = pid\<rparr>"
  from assms obtain r where r: "filter P rows = [r]"
    unfolding P_def by (metis One_nat_def length_0_conv length_Suc_conv)
  have "r \<in> set [r]" by simp
  then have "r \<in> set (filter P rows)" by (simp only: r)
  then have "P r" by (simp only: set_filter mem_Collect_eq)
  then have "w_user_id r = uid" "w_product_id r = pid"
    by (simp_all add: P_def wishlist_match_def)
  then have rn: "r = new" unfolding new_def by (cases r) simp
  have "mset rows = {#x \<in># mset rows. P x#} + {#x \<in># mset rows. \<not> P x#}"
    by (rule multiset_partition)
  also have "{#x \<in># mset rows. P x#} = mset (filter P rows)"
    by (rule mset_filter[symmetric])
  also have "\<dots> = {#new#}" by (simp only: r rn mset.simps)
  also have "{#x \<in># mset rows. \<not> P x#} = mset (filter (\<lambda>x. \<not> P x) rows)"
    by (rule mset_filter[symmetric])
  finally have "mset rows = {#new#} + mset (filter (\<lambda>x. \<not> P x) rows)" .
  also have "\<dots> = mset (filter (\<lambda>x. \<not> P x) rows @ [new])"
    by (simp only: mset_append mset.simps add.commute)
  finally show ?thesis unfolding P_def new_def by (rule sym)
qed

lemma no_match_filter:
  assumes "length (filter (wishlist_match uid pid) rows) = 0"
  shows "filter (\<lambda>r. \<not> wishlist_match uid pid r)
           (rows @ [\<lparr>w_user_id = uid, w_product_id = pid\<rparr>]) = rows"
proof -
  from assms have "\<forall>r \<in> set rows. \<not> wishlist_match uid pid r"
    by (simp add: filter_empty_conv)
  then have "filter (\<lambda>r. \<not> wishlist_match uid pid r) rows = rows"
    by (simp add: filter_id_conv)
  then show ?thesis by (simp add: wishlist_match_def)
qed

text \<open>
  Claim C8, as the code has it.  For a signed-in user whose wishlist flag
  agrees with the remote collection (one row for the (user, product) pair when
  the flag is set, none otherwise), and with both remote calls succeeding: the
  first toggle flips the flag and changes the collection (it deletes the pair's
  row when the flag was set, it appends the pair's row when it was not), logging
  that one mutation and raising its toast; the second toggle brings the flag
  back and leaves the collection with the same rows as at the start (as a
  multiset; in particular the pair's membership is as it was), so that exactly
  two mutations were issued: a delete then an insert when the flag was set, an
  insert then a delete when it was not.  The cart collection is untouched.
\<close>

theorem handleToggleWishlist_twice:
  assumes "user = Some u"
    and "length (filter (wishlist_match (user_id u) (prod_id props)) (wishlist db))
           = (if isWishlisted st then 1 else 0)"
  shows
  "(case handleToggleWishlist props user None (st, db) of
      (st1, db1) \<Rightarrow>
        isWishlisted st1 = (\<not> isWishlisted st)
        \<and> wishlist db1 =
            (if isWishlisted st
             then filter (\<lambda>r. \<not> wishlist_match (user_id u) (prod_id props) r) (wishlist db)
             else wishlist db @ [\<lparr>w_user_id = user_id u, w_product_id = prod_id props\<rparr>])
        \<and> length (filter (wishlist_match (user_id u) (prod_id props)) (wishlist db1))
            = (if isWishlisted st then 0 else 1)
        \<and> mutations db1 = mutations db @
            [if isWishlisted st then WishlistDelete (user_id u) (prod_id props)
             else WishlistInsert (user_id u) (prod_id props)]
        \<and> toasts st1 = toasts st @
            [if isWishlisted st
             then \<lparr>title = ''Removed from Wishlist'',
                   description = prod_name props @ '' has been removed from your wishlist.'',
                   variant = None\<rparr>
             else \<lparr>title = ''Added to Wishlist'',
                   description = prod_name props @ '' has been added to your wishlist.'',
                   variant = Some Success\<rparr>]
        \<and> (case handleToggleWishlist props user None (st1, db1) of
             (st2, db2) \<Rightarrow>
               isWishlisted st2 = isWishlisted st
               \<and> mset (wishlist db2) = mset (wishlist db)
               \<and> length (filter (wishlist_match (user_id u) (prod_id props)) (wishlist db2))
                   = length (filter (wishlist_match (user_id u) (prod_id props)) (wishlist db))
               \<and> mutations db2 = mutations db @
                   (if isWishlisted st
                    then [WishlistDelete (user_id u) (prod_id props),
                          WishlistInsert (user_id u) (prod_id props)]
                    else [WishlistInsert (user_id u) (prod_id props),
                          WishlistDelete (user_id u) (prod_id props)])
               \<and> cart_items db2 = cart_items db
               \<and> length (toasts st2) = length (toasts st) + 2))"
proof -
  define uid pid where "uid = user_id u" and "pid = prod_id props"
  define new where "new = \<lparr>w_user_id = uid, w_product_id = pid\<rparr>"
  have wm: "wishlist_match uid pid new" by (simp add: new_def wishlist_match_def)
  show ?thesis
  proof (cases "isWishlisted st")
    case True
    define st1 where "st1 = st\<lparr>toasts := toasts st @
              [\<lparr>title = ''Removed from Wishlist'',
                description = prod_name props @ '' has been removed from your wishlist.'',
                variant = None\<rparr>],
         isWishlisted := False, isLoadingWishlist := False\<rparr>"
    define db1 where "db1 = db\<lparr>wishlist := filter (\<lambda>r. \<not> wishlist_match uid pid r) (wishlist db),
         mutations := mutations db @ [WishlistDelete uid pid]\<rparr>"
    have s1: "handleToggleWishlist props (Some u) None (st, db) = (st1, db1)"
      unfolding st1_def db1_def uid_def pid_def by (rule toggle_remove[OF True])
    have n1: "\<not> isWishlisted st1" by (simp add: st1_def)
    note s2 = toggle_add[OF n1, of props u db1]
    from assms(2) True have one: "length (filter (wishlist_match uid pid) (wishlist db)) = 1"
      by (simp add: uid_def pid_def)
    have m: "mset (filter (\<lambda>r. \<not> wishlist_match uid pid r) (wishlist db) @ [new]) = mset (wishlist db)"
      unfolding new_def using one by (rule single_match_mset)
    have l: "length (filter (wishlist_match uid pid)
               (filter (\<lambda>r. \<not> wishlist_match uid pid r) (wishlist db) @ [new])) = 1"
      using wm by simp
    have l0: "length (filter (wishlist_match uid pid)
               (filter (\<lambda>r. \<not> wishlist_match uid pid r) (wishlist db))) = 0"
      by simp
    have w1: "wishlist db1 = filter (\<lambda>r. \<not> wishlist_match uid pid r) (wishlist db)"
      and m1: "mutations db1 = mutations db @ [WishlistDelete uid pid]"
      and c1: "cart_items db1 = cart_items db"
      and t1: "toasts st1 = toasts st @
              [\<lparr>title = ''Removed from Wishlist'',
                description = prod_name props @ '' has been removed from your wishlist.'',
                variant = None\<rparr>]"
      by (simp_all add: db1_def st1_def)
    show ?thesis
      unfolding assms(1) s1 s2 prod.case
      unfolding uid_def[symmetric] pid_def[symmetric] new_def[symmetric]
      using True m l l0 one n1 by (simp add: w1 m1 c1 t1 del: mset_append filter_append filter_filter)
  next
    case False
    define st1 where "st1 = st\<lparr>toasts := toasts st @
              [\<lparr>title = ''Added to Wishlist'',
                description = prod_name props @ '' has been added to your wishlist.'',
                variant = Some Success\<rparr>],
         isWishlisted := True, isLoadingWishlist := False\<rparr>"
    define db1 where "db1 = db\<lparr>wishlist := wishlist db @ [new],
         mutations := mutations db @ [WishlistInsert uid pid]\<rparr>"
    have s1: "handleToggleWishlist props (Some u) None (st, db) = (st1, db1)"
      unfolding st1_def db1_def uid_def pid_def new_def by (rule toggle_add[OF False])
    have n1: "isWishlisted st1" by (simp add: st1_def)
    note s2 = toggle_remove[OF n1, of props u db1]
    from assms(2) False have zero: "length (filter (wishlist_match uid pid) (wishlist db)) = 0"
      by (simp add: uid_def pid_def)
    have f: "filter (\<lambda>r. \<not> wishlist_match uid pid r) (wishlist db @ [new]) = wishlist db"
      unfolding new_def using zero by (rule no_match_filter)
    have l1: "length (filter (wishlist_match uid pid) (wishlist db @ [new])) = 1"
      using zero wm by simp
    have w1: "wishlist db1 = wishlist db @ [new]"
      and m1: "mutations db1 = mutations db @ [WishlistInsert uid pid]"
      and c1: "cart_items db1 = cart_items db"
      and t1: "toasts st1 = toasts st @
              [\<lparr>title = ''Added to Wishlist'',
                description = prod_name props @ '' has been added to your wishlist.'',
                variant = Some Success\<rparr>]"
      by (simp_all add: db1_def st1_def)
    show ?thesis
      unfolding assms(1) s1 s2 prod.case
      unfolding uid_def[symmetric] pid_def[symmetric] new_def[symmetric]
      using False f l1 zero n1 by (simp add: w1 m1 c1 t1 del: filter_append)
  qed
qed

theorem handleToggleWishlist_twice_witness:
  "wishlist (snd (handleToggleWishlist sampleProps (Some sampleUser) None
       (sampleCard, sampleBackend)))
     = [\<lparr>w_user_id = ''u2'', w_product_id = 42\<rparr>, \<lparr>w_user_id = ''u1'', w_product_id = 42\<rparr>]
   \<and> isWishlisted (fst (handleToggleWishlist sampleProps (Some sampleUser) None
       (sampleCard, sampleBackend)))
   \<and> isWishlisted (fst (handleToggleWishlist sampleProps (Some sampleUser) None
       (handleToggleWishlist sampleProps (Some sampleUser) None (sampleCard, sampleBackend))))
     = False
   \<and> mutations (snd (handleToggleWishlist sampleProps (Some sampleUser) None
       (handleToggleWishlist sampleProps (Some sampleUser) None (sampleCard, sampleBackend))))
     = [WishlistInsert ''u1'' 42, WishlistDelete ''u1'' 42]
   \<and> mset (wishlist (snd (handleToggleWishlist sampleProps (Some sampleUser) None
       (handleToggleWishlist sampleProps (Some sampleUser) None (sampleCard, sampleBackend)))))
     = {#\<lparr>w_user_id = ''u2'', w_product_id = 42\<rparr>#}"
proof -
  have h: "length (filter (wishlist_match (user_id sampleUser) (prod_id sampleProps))
                     (wishlist sampleBackend))
             = (if isWishlisted sampleCard then 1 else 0)"
    by (simp add: sampleBackend_def sampleUser_def sampleProps_def sampleCard_def
          wishlist_match_def)
  obtain st1 db1 where s1: "handleToggleWishlist sampleProps (Some sampleUser) None
       (sampleCard, sampleBackend) = (st1, db1)"
    by (cases "handleToggleWishlist sampleProps (Some sampleUser) None
       (sampleCard, sampleBackend)")
  obtain st2 db2 where s2: "handleToggleWishlist sampleProps (Some sampleUser) None
       (st1, db1) = (st2, db2)"
    by (cases "handleToggleWishlist sampleProps (Some sampleUser) None (st1, db1)")
  note t = handleToggleWishlist_twice[OF refl h, unfolded s1 prod.case s2]
  from t show ?thesis
    unfolding s1 s2
    by (simp add: sampleBackend_def sampleUser_def sampleProps_def sampleCard_def)
qed

text \<open>
  Without the agreement the remote membership is not restored.  Here the flag
  is set although the collection holds no row for the pair (the row was removed
  elsewhere): the first toggle deletes nothing, the second inserts, and the
  pair, absent at the start, is on the wishlist at the end.
\<close>

theorem handleToggleWishlist_claim_counterexample:
  "isWishlisted (sampleCard\<lparr>isWishlisted := True\<rparr>)
   \<and> filter (wishlist_match ''u1'' 42) (wishlist sampleBackend) = []
   \<and> (case handleToggleWishlist sampleProps (Some sampleUser) None
              (handleToggleWishlist sampleProps (Some sampleUser) None
                 (sampleCard\<lparr>isWishlisted := True\<rparr>, sampleBackend)) of
        (st2, db2) \<Rightarrow>
          isWishlisted st2
          \<and> mutations db2 = [WishlistDelete ''u1'' 42, WishlistInsert ''u1'' 42]
          \<and> filter (wishlist_match ''u1'' 42) (wishlist db2)
              = [\<lparr>w_user_id = ''u1'', w_product_id = 42\<rparr>]
          \<and> wishlist db2 \<noteq> wishlist sampleBackend)"
  by (simp add: handleToggleWishlist_def wishlist_delete_def wishlist_insert_def
        toast_call_def Let_def wishlist_match_def
        sampleBackend_def sampleUser_def sampleProps_def sampleCard_def)

section \<open>Properties of the CSV report\<close>

lemma csvRows_formatted:
  assumes "\<forall>x \<in> set os. formatDate (report_order_date x) = Inr (f (report_order_date x))"
  shows "csvRows formatDate numberToString os =
     Inr (map (\<lambda>x. join '','' [report_id x, report_customer_name x, report_customer_email x,
                                  f (report_order_date x), report_status x,
                                  numberToString (report_total_amount x)]) os)"
  using assms by (induction os) (simp_all add: csvRow_def)

lemma count_newline_join:
  assumes "\<forall>l \<in> set ls. CHR 0x0A \<notin> set l" and "ls \<noteq> []"
  shows "count_list (join newline ls) (CHR 0x0A) = length ls - 1"
  using assms
proof (induction ls)
  case Nil
  then show ?case by simp
next
  case (Cons x xs)
  from Cons.prems have x0: "count_list x (CHR 0x0A) = 0" by (simp add: count_list_0_iff)
  show ?case
  proof (cases xs)
    case Nil
    with x0 show ?thesis by simp
  next
    case (Cons y ys)
    with Cons.IH Cons.prems
    have "count_list (join newline (y # ys)) (CHR 0x0A) = length (y # ys) - 1" by simp
    with x0 Cons show ?thesis by (simp add: newline_def)
  qed
qed

lemma headers_line:
  "join '','' headers = ''Order ID,Customer Name,Customer Email,Order Date,Status,Total Amount''"
  by (simp add: headers_def)

lemma report_error:
  "error resp = Some err \<Longrightarrow>
   handleGenerateReport formatDate numberToString resp panel =
     panel\<lparr>toasts := toasts panel @
              [\<lparr>title = ''Generating Report...'',
                description = ''Please wait while we fetch and process the order data.'',
                variant = None\<rparr>,
               \<lparr>title = ''Error Generating Report'',
                description = messageOr err ''An unexpected error occurred.'',
                variant = Some Destructive\<rparr>],
           console := console panel @ [err],
           isGeneratingReport := False\<rparr>"
  by (simp add: handleGenerateReport_def toast_call_def console_error_def Let_def)

lemma report_no_data:
  "error resp = None \<Longrightarrow> data resp = None \<or> data resp = Some [] \<Longrightarrow>
   handleGenerateReport formatDate numberToString resp panel =
     panel\<lparr>toasts := toasts panel @
              [\<lparr>title = ''Generating Report...'',
                description = ''Please wait while we fetch and process the order data.'',
                variant = None\<rparr>,
               \<lparr>title = ''No Data'',
                description = ''No orders found to generate a report.'',
                variant = Some Default\<rparr>],
           isGeneratingReport := False\<rparr>"
  by (erule disjE) (simp_all add: handleGenerateReport_def toast_call_def Let_def)

lemma report_rows:
  "error resp = None \<Longrightarrow> data resp = Some (x # xs) \<Longrightarrow>
   csvRows formatDate numberToString (x # xs) = Inr rows \<Longrightarrow>
   handleGenerateReport formatDate numberToString resp panel =
     panel\<lparr>toasts := toasts panel @
              [\<lparr>title = ''Generating Report...'',
                description = ''Please wait while we fetch and process the order data.'',
                variant = None\<rparr>,
               \<lparr>title = ''Report Generated Successfully'',
                description = ''The orders report has been downloaded.'',
                variant = Some Success\<rparr>],
           isGeneratingReport := False,
           downloads := downloads panel @
              [\<lparr>filename = ''orders_report.csv'', content = csvString rows,
                blob_type = ''text/csv;charset=utf-8;''\<rparr>]\<rparr>"
  by (simp add: handleGenerateReport_def toast_call_def Let_def del: csvRows.simps)

lemma report_raise:
  "error resp = None \<Longrightarrow> data resp = Some (x # xs) \<Longrightarrow>
   csvRows formatDate numberToString (x # xs) = Inl err \<Longrightarrow>
   handleGenerateReport formatDate numberToString resp panel =
     panel\<lparr>toasts := toasts panel @
              [\<lparr>title = ''Generating Report...'',
                description = ''Please wait while we fetch and process the order data.'',
                variant = None\<rparr>,
               \<lparr>title = ''Error Generating Report'',
                description = messageOr err ''An unexpected error occurred.'',
                variant = Some Destructive\<rparr>],
           console := console panel @ [err],
           isGeneratingReport := False\<rparr>"
  by (simp add: handleGenerateReport_def toast_call_def console_error_def Let_def del: csvRows.simps)

lemma csvRows_rejected:
  assumes "\<forall>y \<in> set pre. \<exists>s. formatDate (report_order_date y) = Inr s"
    and "formatDate (report_order_date x) = Inl err"
  shows "csvRows formatDate numberToString (pre @ x # post) = Inl err"
  using assms
proof (induction pre)
  case Nil
  then show ?case by (simp add: csvRow_def)
next
  case (Cons y ys)
  from Cons.prems obtain s where "formatDate (report_order_date y) = Inr s" by auto
  moreover from Cons have "csvRows formatDate numberToString (ys @ x # post) = Inl err"
    by simp
  ultimately show ?case by (simp add: csvRow_def)
qed

text \<open>
  Claim C9, as the code has it.  With no fetched order (\<open>null\<close> or an empty
  array, no error) the handler produces no file and raises two toasts, neither
  destructive: the progress toast \<open>Generating Report...\<close> it starts with, then
  \<open>No Data\<close>.  With \<open>N > 0\<close> orders, all of whose dates the formatter accepts
  (\<open>f\<close> is what it prints), it downloads one file named \<open>orders_report.csv\<close>
  whose text is the \<open>N + 1\<close> strings, the fixed header and then one per order,
  joined by single newlines; each order's string is its six fields joined by
  commas, nothing quoted or escaped.  The text has exactly \<open>N\<close> newline
  characters, hence \<open>N + 1\<close> lines, provided no field contains a newline.  The
  success toast follows the progress toast.  When the formatter rejects the date
  of an order \<open>x\<close> (and accepts those of the orders before it), no file is
  produced, whatever orders follow: the error is written to the console and the
  destructive toast \<open>Error Generating Report\<close> follows the progress toast.
\<close>

theorem handleGenerateReport_csv:
  fixes formatDate :: "string \<Rightarrow> js_error + string"
    and numberToString :: "'n \<Rightarrow> string"
    and f :: "string \<Rightarrow> string"
  defines "row \<equiv> (\<lambda>x. join '','' [report_id x, report_customer_name x,
                                    report_customer_email x, f (report_order_date x),
                                    report_status x, numberToString (report_total_amount x)])"
    and "header \<equiv> ''Order ID,Customer Name,Customer Email,Order Date,Status,Total Amount''"
    and "generating \<equiv>
           \<lparr>title = ''Generating Report...'',
            description = ''Please wait while we fetch and process the order data.'',
            variant = None\<rparr>"
  shows
  "(error resp = None \<and> (data resp = None \<or> data resp = Some []) \<longrightarrow>
      downloads (handleGenerateReport formatDate numberToString resp panel) = downloads panel
      \<and> toasts (handleGenerateReport formatDate numberToString resp panel) =
          toasts panel @
            [generating,
             \<lparr>title = ''No Data'', description = ''No orders found to generate a report.'',
              variant = Some Default\<rparr>])
   \<and> (error resp = None \<and> data resp = Some os \<and> os \<noteq> []
       \<and> (\<forall>x \<in> set os. formatDate (report_order_date x) = Inr (f (report_order_date x))) \<longrightarrow>
      downloads (handleGenerateReport formatDate numberToString resp panel) =
          downloads panel @
            [\<lparr>filename = ''orders_report.csv'',
              content = join newline (header # map row os),
              blob_type = ''text/csv;charset=utf-8;''\<rparr>]
      \<and> length (header # map row os) = length os + 1
      \<and> ((\<forall>x \<in> set os. CHR 0x0A \<notin> set (row x)) \<longrightarrow>
            count_list (join newline (header # map row os)) (CHR 0x0A) = length os)
      \<and> toasts (handleGenerateReport formatDate numberToString resp panel) =
          toasts panel @
            [generating,
             \<lparr>title = ''Report Generated Successfully'',
              description = ''The orders report has been downloaded.'',
              variant = Some Success\<rparr>])
   \<and> (error resp = None \<and> data resp = Some (pre @ x # post)
       \<and> (\<forall>y \<in> set pre. \<exists>s. formatDate (report_order_date y) = Inr s)
       \<and> formatDate (report_order_date x) = Inl err \<longrightarrow>
      downloads (handleGenerateReport formatDate numberToString resp panel) = downloads panel
      \<and> toasts (handleGenerateReport formatDate numberToString resp panel) =
          toasts panel @
            [generating,
             \<lparr>title = ''Error Generating Report'',
              description = messageOr err ''An unexpected error occurred.'',
              variant = Some Destructive\<rparr>]
      \<and> console (handleGenerateReport formatDate numberToString resp panel) =
          console panel @ [err])"
proof (intro conjI impI)
  assume a: "error resp = None \<and> (data resp = None \<or> data resp = Some [])"
  then have e: "error resp = None" and d: "data resp = None \<or> data resp = Some []"
    by blast+
  note eq = report_no_data[OF e d, of formatDate numberToString panel]
  show "downloads (handleGenerateReport formatDate numberToString resp panel) = downloads panel"
    unfolding eq by simp
  show "toasts (handleGenerateReport formatDate numberToString resp panel) =
          toasts panel @
            [generating,
             \<lparr>title = ''No Data'', description = ''No orders found to generate a report.'',
              variant = Some Default\<rparr>]"
    unfolding eq generating_def by simp
next
  assume a: "error resp = None \<and> data resp = Some os \<and> os \<noteq> []
       \<and> (\<forall>x \<in> set os. formatDate (report_order_date x) = Inr (f (report_order_date x)))"
  then have e: "error resp = None" and d: "data resp = Some os" and n: "os \<noteq> []"
    and fm: "\<forall>x \<in> set os. formatDate (report_order_date x) = Inr (f (report_order_date x))"
    by blast+
  from n obtain x xs where os: "os = x # xs" by (cases os) auto
  have rows: "csvRows formatDate numberToString (x # xs) = Inr (map row os)"
    unfolding os[symmetric] row_def using fm by (rule csvRows_formatted)
  note eq = report_rows[OF e d[unfolded os] rows, of panel]
  have cs: "csvString (map row os) = join newline (header # map row os)"
    unfolding csvString_def header_def headers_line ..
  show "downloads (handleGenerateReport formatDate numberToString resp panel) =
          downloads panel @
            [\<lparr>filename = ''orders_report.csv'',
              content = join newline (header # map row os),
              blob_type = ''text/csv;charset=utf-8;''\<rparr>]"
    unfolding eq cs by simp
  show "toasts (handleGenerateReport formatDate numberToString resp panel) =
          toasts panel @
            [generating,
             \<lparr>title = ''Report Generated Successfully'',
              description = ''The orders report has been downloaded.'',
              variant = Some Success\<rparr>]"
    unfolding eq generating_def by simp
  show "length (header # map row os) = length os + 1" by simp
next
  assume nl: "\<forall>x \<in> set os. CHR 0x0A \<notin> set (row x)"
  have "CHR 0x0A \<notin> set header" unfolding header_def by simp
  with nl have "\<forall>l \<in> set (header # map row os). CHR 0x0A \<notin> set l" by simp
  then have "count_list (join newline (header # map row os)) (CHR 0x0A)
               = length (header # map row os) - 1"
    by (rule count_newline_join) simp
  then show "count_list (join newline (header # map row os)) (CHR 0x0A) = length os"
    by simp
next
  assume a: "error resp = None \<and> data resp = Some (pre @ x # post)
       \<and> (\<forall>y \<in> set pre. \<exists>s. formatDate (report_order_date y) = Inr s)
       \<and> formatDate (report_order_date x) = Inl err"
  then have e: "error resp = None" and d: "data resp = Some (pre @ x # post)"
    and ok: "\<forall>y \<in> set pre. \<exists>s. formatDate (report_order_date y) = Inr s"
    and bad: "formatDate (report_order_date x) = Inl err"
    by blast+
  obtain z zs where sp: "pre @ x # post = z # zs" by (cases "pre @ x # post") auto
  have r: "csvRows formatDate numberToString (z # zs) = Inl err"
    unfolding sp[symmetric] using ok bad by (rule csvRows_rejected)
  note eq = report_raise[OF e d[unfolded sp] r, of panel]
  show "downloads (handleGenerateReport formatDate numberToString resp panel) = downloads panel"
    unfolding eq by simp
  show "toasts (handleGenerateReport formatDate numberToString resp panel) =
          toasts panel @
            [generating,
             \<lparr>title = ''Error Generating Report'',
              description = messageOr err ''An unexpected error occurred.'',
              variant = Some Destructive\<rparr>]"
    unfolding eq generating_def by simp
  show "console (handleGenerateReport formatDate numberToString resp panel) =
          console panel @ [err]"
    unfolding eq by simp
qed

theorem handleGenerateReport_csv_witness:
  "downloads (handleGenerateReport isoFormat showNat
               \<lparr>data = Some sampleReportRows, error = None\<rparr> samplePanel) =
     [\<lparr>filename = ''orders_report.csv'',
       content = ''Order ID,Customer Name,Customer Email,Order Date,Status,Total Amount''
                 @ newline
                 @ ''ORD-1,Alice Rao,alice@example.com,2024-01-05 10:20:30,pending,1200''
                 @ newline
                 @ ''ORD-2,Iyer, Bob,bob@example.com,2024-02-11 08:00:00,shipped,85'',
       blob_type = ''text/csv;charset=utf-8;''\<rparr>]
   \<and> downloads (handleGenerateReport isoFormat showNat
                 \<lparr>data = Some ([] :: nat OrderReportData list), error = None\<rparr> samplePanel) = []
   \<and> downloads (handleGenerateReport isoFormat showNat
                 \<lparr>data = Some (sampleReportRows
                                @ [hd sampleReportRows\<lparr>report_order_date := ''not a date''\<rparr>]),
                  error = None\<rparr> samplePanel) = []
   \<and> map variant (toasts (handleGenerateReport isoFormat showNat
                 \<lparr>data = Some (sampleReportRows
                                @ [hd sampleReportRows\<lparr>report_order_date := ''not a date''\<rparr>]),
                  error = None\<rparr> samplePanel)) = [None, Some Destructive]"
proof -
  define f where "f = (\<lambda>s :: string. take 10 s @ '' '' @ drop 11 s)"
  define ok :: "nat OrderReportData list response"
    where "ok = \<lparr>data = Some sampleReportRows, error = None\<rparr>"
  define none :: "nat OrderReportData list response"
    where "none = \<lparr>data = Some [], error = None\<rparr>"
  define x where "x = hd sampleReportRows\<lparr>report_order_date := ''not a date''\<rparr>"
  define bad :: "nat OrderReportData list response"
    where "bad = \<lparr>data = Some (sampleReportRows @ [x]), error = None\<rparr>"
  have h: "error ok = None \<and> data ok = Some sampleReportRows \<and> sampleReportRows \<noteq> []
       \<and> (\<forall>x \<in> set sampleReportRows.
            isoFormat (report_order_date x) = Inr (f (report_order_date x)))"
    by (simp add: ok_def sampleReportRows_def isoFormat_def f_def)
  have z: "error none = None \<and> (data none = None \<or> data none = Some [])"
    by (simp add: none_def)
  have r: "error bad = None \<and> data bad = Some (sampleReportRows @ x # [])
       \<and> (\<forall>y \<in> set sampleReportRows. \<exists>s. isoFormat (report_order_date y) = Inr s)
       \<and> isoFormat (report_order_date x) = Inl \<lparr>message = Some ''Invalid time value''\<rparr>"
    by (simp add: bad_def x_def sampleReportRows_def isoFormat_def)
  have n1: "showNat 1200 = ''1200''" and n2: "showNat 85 = ''85''" by code_simp+
  note a = conjunct1[OF mp[OF conjunct1[OF conjunct2[OF handleGenerateReport_csv[where resp = ok
              and os = sampleReportRows and formatDate = isoFormat and f = f
              and numberToString = showNat and panel = samplePanel]]] h]]
  note b = conjunct1[OF mp[OF conjunct1[OF handleGenerateReport_csv[where resp = none
              and formatDate = isoFormat and numberToString = showNat
              and panel = samplePanel]] z]]
  note c = mp[OF conjunct2[OF conjunct2[OF handleGenerateReport_csv[where resp = bad
              and formatDate = isoFormat and numberToString = showNat
              and panel = samplePanel and pre = sampleReportRows and x = x and post = "[]"
              and err = "\<lparr>message = Some ''Invalid time value''\<rparr>"]]] r]
  note c1 = conjunct1[OF c] and c2 = conjunct1[OF conjunct2[OF c]]
  show ?thesis
    unfolding ok_def[symmetric] none_def[symmetric] x_def[symmetric] bad_def[symmetric]
      a b c1 c2
    by (simp add: samplePanel_def sampleReportRows_def f_def n1 n2)
qed

text \<open>
  The claim as stated fails in three places.  With zero fetched orders the
  handler has raised two non-destructive toasts, not one.  One fetched order
  whose date is not a valid timestamp produces no file at all: the formatter
  raises inside the map and the handler's \<open>catch\<close> takes over.  And one
  fetched order whose customer name contains a newline gives a text with two
  newline characters, three lines instead of two, since nothing is escaped.
\<close>

theorem handleGenerateReport_claim_counterexample:
  "toasts (handleGenerateReport isoFormat showNat
            \<lparr>data = Some ([] :: nat OrderReportData list), error = None\<rparr> samplePanel) =
     [\<lparr>title = ''Generating Report...'',
       description = ''Please wait while we fetch and process the order data.'',
       variant = None\<rparr>,
      \<lparr>title = ''No Data'', description = ''No orders found to generate a report.'',
       variant = Some Default\<rparr>]
   \<and> length (filter (\<lambda>t. variant t \<noteq> Some Destructive)
        (toasts (handleGenerateReport isoFormat showNat
            \<lparr>data = Some ([] :: nat OrderReportData list), error = None\<rparr> samplePanel))) = 2
   \<and> downloads (handleGenerateReport isoFormat showNat
        \<lparr>data = Some [hd sampleReportRows\<lparr>report_order_date := ''not a date''\<rparr>],
         error = None\<rparr> samplePanel) = []
   \<and> map (\<lambda>d. count_list (content d) (CHR 0x0A))
        (downloads (handleGenerateReport isoFormat showNat
           \<lparr>data = Some [hd sampleReportRows
                           \<lparr>report_customer_name := ''Alice'' @ newline @ ''Rao''\<rparr>],
            error = None\<rparr> samplePanel)) = [2]"
proof -
  have r: "csvRows isoFormat showNat
             [hd sampleReportRows\<lparr>report_order_date := ''not a date''\<rparr>]
           = Inl \<lparr>message = Some ''Invalid time value''\<rparr>"
    by (simp add: csvRow_def isoFormat_def sampleReportRows_def)
  have d: "downloads (handleGenerateReport isoFormat showNat
        \<lparr>data = Some [hd sampleReportRows\<lparr>report_order_date := ''not a date''\<rparr>],
         error = None\<rparr> samplePanel) = []"
    by (subst report_raise[OF _ _ r]) (simp_all add: samplePanel_def)
  have t: "toasts (handleGenerateReport isoFormat showNat
            \<lparr>data = Some ([] :: nat OrderReportData list), error = None\<rparr> samplePanel) =
     [\<lparr>title = ''Generating Report...'',
       description = ''Please wait while we fetch and process the order data.'',
       variant = None\<rparr>,
      \<lparr>title = ''No Data'', description = ''No orders found to generate a report.'',
       variant = Some Default\<rparr>]"
    by (subst report_no_data) (simp_all add: samplePanel_def)
  have n1: "showNat 1200 = ''1200''" by code_simp
  have q: "csvRows isoFormat showNat
             [hd sampleReportRows\<lparr>report_customer_name := ''Alice'' @ newline @ ''Rao''\<rparr>]
           = Inr [''ORD-1,Alice'' @ newline
                  @ ''Rao,alice@example.com,2024-01-05 10:20:30,pending,1200'']"
    by (simp add: csvRow_def isoFormat_def sampleReportRows_def n1)
  have n: "map (\<lambda>d. count_list (content d) (CHR 0x0A))
        (downloads (handleGenerateReport isoFormat showNat
           \<lparr>data = Some [hd sampleReportRows
                           \<lparr>report_customer_name := ''Alice'' @ newline @ ''Rao''\<rparr>],
            error = None\<rparr> samplePanel)) = [2]"
    by (subst report_rows[OF _ _ q])
       (simp_all add: samplePanel_def csvString_def headers_line newline_def)
  show ?thesis unfolding t d n by simp
qed

end
